theory Spec2Isabelle
  imports Main "HOL-Library.Word"
begin

section \<open>Values, errors and outcomes\<close>

text \<open>
  The Go sources are two files of package \<^verbatim>\<open>vm\<close>: the access-list gas functions (with the
  gas functions of MCOPY and of the init-code size limit) and the feature activators (with
  the execute functions of the opcodes they add).
  A \<^verbatim>\<open>uint64\<close> is a 64-bit word (\<open>+\<close>, \<open>-\<close> and \<open>*\<close> wrap, as in Go), a stack item
  (\<^verbatim>\<open>uint256.Int\<close>) is a 256-bit word, a \<^verbatim>\<open>common.Hash\<close> is the 32 bytes of such a word
  and a \<^verbatim>\<open>common.Address\<close> its low 20 bytes.
\<close>

type_synonym uint64 = "64 word"
type_synonym uint256 = "256 word"
type_synonym hash = "256 word"
type_synonym address = "160 word"
type_synonym byte = "8 word"

text \<open>\<^verbatim>\<open>x.Uint64()\<close> keeps the low 64 bits of a stack item; \<^verbatim>\<open>x.Bytes20()\<close> its low 20 bytes;
  \<^verbatim>\<open>x.Bytes32()\<close> all of it.\<close>

definition Uint64 :: "uint256 \<Rightarrow> uint64" where
  "Uint64 x = ucast x"

definition Bytes20 :: "uint256 \<Rightarrow> address" where
  "Bytes20 x = ucast x"

definition Bytes32 :: "uint256 \<Rightarrow> hash" where
  "Bytes32 x = x"

text \<open>Error values: the package's named errors, and ad-hoc ones made by \<^verbatim>\<open>errors.New\<close> or
  \<^verbatim>\<open>fmt.Errorf\<close>, which carry their message.\<close>

datatype error =
    ErrOutOfGas
  | ErrGasUintOverflow
  | ErrMemoryOverflow
  | ErrMaxInitCodeSizeExceeded
  | errors_New string

text \<open>A Go call either returns or panics (which aborts the process).\<close>

datatype 'a outcome = Panic string | Return 'a

text \<open>The result pair \<^verbatim>\<open>(uint64, error)\<close> of a gas function; \<open>None\<close> is the \<^verbatim>\<open>nil\<close> error.\<close>

type_synonym gas_result = "(uint64 \<times> error option) outcome"

subsection \<open>Protocol constants (go-ethereum's package params)\<close>

definition SstoreSentryGasEIP2200 :: uint64 where
  "SstoreSentryGasEIP2200 = 2300"

definition SstoreSetGasEIP2200 :: uint64 where
  "SstoreSetGasEIP2200 = 20000"

definition SstoreResetGasEIP2200 :: uint64 where
  "SstoreResetGasEIP2200 = 5000"

definition SstoreClearsScheduleRefundEIP2200 :: uint64 where
  "SstoreClearsScheduleRefundEIP2200 = 15000"

definition SstoreClearsScheduleRefundEIP3529 :: uint64 where
  "SstoreClearsScheduleRefundEIP3529 = 4800"

definition ColdAccountAccessCostEIP2929 :: uint64 where
  "ColdAccountAccessCostEIP2929 = 2600"

definition ColdSloadCostEIP2929 :: uint64 where
  "ColdSloadCostEIP2929 = 2100"

definition WarmStorageReadCostEIP2929 :: uint64 where
  "WarmStorageReadCostEIP2929 = 100"

definition CreateBySelfdestructGas :: uint64 where
  "CreateBySelfdestructGas = 25000"

definition SelfdestructRefundGas :: uint64 where
  "SelfdestructRefundGas = 24000"

definition SelfdestructGasEIP150 :: uint64 where
  "SelfdestructGasEIP150 = 5000"

definition SloadGasEIP1884 :: uint64 where
  "SloadGasEIP1884 = 800"

definition SloadGasEIP2200 :: uint64 where
  "SloadGasEIP2200 = 800"

definition BalanceGasEIP1884 :: uint64 where
  "BalanceGasEIP1884 = 700"

definition ExtcodeHashGasEIP1884 :: uint64 where
  "ExtcodeHashGasEIP1884 = 700"

definition MemoryGas :: uint64 where
  "MemoryGas = 3"

definition QuadCoeffDiv :: uint64 where
  "QuadCoeffDiv = 512"

definition StackLimit :: int where
  "StackLimit = 1024"

definition GasQuickStep :: uint64 where
  "GasQuickStep = 2"

definition GasFastStep :: uint64 where
  "GasFastStep = 5"

subsection \<open>Overflow-checked arithmetic (go-ethereum's common/math)\<close>

text \<open>\<^verbatim>\<open>SafeAdd\<close> and \<^verbatim>\<open>SafeMul\<close> return the wrapped result and whether it overflowed.\<close>

definition SafeAdd :: "uint64 \<Rightarrow> uint64 \<Rightarrow> uint64 \<times> bool" where
  "SafeAdd x y = (x + y, 2 ^ 64 \<le> unat x + unat y)"

definition SafeMul :: "uint64 \<Rightarrow> uint64 \<Rightarrow> uint64 \<times> bool" where
  "SafeMul x y = (x * y, 2 ^ 64 \<le> unat x * unat y)"

section \<open>The collaborators: stack, state database, contract, memory\<close>

subsection \<open>Stack\<close>

text \<open>
  Modelled from the spec: the stack collaborator (``bounded push/pop/peek'' of 256-bit words) is
  not among the sources. The stack is the slice of its items, the top last. \<^verbatim>\<open>Back(n)\<close> is
  the \<open>n\<close>-th item from the top and \<^verbatim>\<open>Peek()\<close> the top; indexing outside the slice is a Go
  run-time panic, here \<open>None\<close>. \<^verbatim>\<open>Pop()\<close> removes and returns the top.
\<close>

type_synonym stack = "uint256 list"

definition Back :: "stack \<Rightarrow> nat \<Rightarrow> uint256 option" where
  "Back st n = (if n < length st then Some (st ! (length st - n - 1)) else None)"

definition Peek :: "stack \<Rightarrow> uint256 option" where
  "Peek st = Back st 0"

definition Pop :: "stack \<Rightarrow> (uint256 \<times> stack) option" where
  "Pop st = (if st = [] then None else Some (last st, butlast st))"

text \<open>
  The run-time panic of an index outside a slice names the index. \<^verbatim>\<open>Back(n)\<close> indexes the
  slice at \<open>len - n - 1\<close>, \<^verbatim>\<open>Peek()\<close> and \<^verbatim>\<open>Pop()\<close> at \<open>len - 1\<close>, so the index of a
  failing access is negative.
\<close>

function decimal :: "nat \<Rightarrow> string" where
  "decimal n = (if n < 10 then [''0123456789'' ! n]
                else decimal (n div 10) @ [''0123456789'' ! (n mod 10)])"
  by pat_completeness auto
termination
  by (relation "measure id") auto

declare decimal.simps [simp del]

definition itoa :: "int \<Rightarrow> string" where
  "itoa i = (if i < 0 then CHR ''-'' # decimal (nat (- i)) else decimal (nat i))"

definition index_out_of_range :: "int \<Rightarrow> string" where
  "index_out_of_range i = ''runtime error: index out of range ['' @ itoa i @ '']''"

definition out_of_range :: "stack \<Rightarrow> nat \<Rightarrow> string" where
  "out_of_range st n = index_out_of_range (int (length st) - int n - 1)"

subsection \<open>State database\<close>

text \<open>
  Modelled from the spec: the execution-context collaborator (``committed-vs-current storage
  value lookup, access-list membership check/insert for addresses and slots, refund
  add/subtract, balance lookup, empty-account check, self-destruct status check'') is an
  interface whose implementation is not among the sources. The access list is the set of warm
  addresses, each with its set of warm slots; inserting a slot also inserts its address. The
  refund accumulator belongs to the collaborator: the model keeps the calls made to it, in
  order, so that nothing is assumed about how it adds and subtracts.
\<close>

datatype refund_call = AddRefund_call uint64 | SubRefund_call uint64

record statedb =
  storage :: "address \<Rightarrow> hash \<Rightarrow> hash"
  committed :: "address \<Rightarrow> hash \<Rightarrow> hash"
  accessList :: "address \<Rightarrow> hash set option"
  refundCalls :: "refund_call list"
  emptyAccount :: "address \<Rightarrow> bool"
  balance :: "address \<Rightarrow> int"
  suicided :: "address \<Rightarrow> bool"

definition GetState :: "statedb \<Rightarrow> address \<Rightarrow> hash \<Rightarrow> hash" where
  "GetState db a k = storage db a k"

definition GetCommittedState :: "statedb \<Rightarrow> address \<Rightarrow> hash \<Rightarrow> hash" where
  "GetCommittedState db a k = committed db a k"

definition AddressInAccessList :: "statedb \<Rightarrow> address \<Rightarrow> bool" where
  "AddressInAccessList db a = (accessList db a \<noteq> None)"

definition SlotInAccessList :: "statedb \<Rightarrow> address \<Rightarrow> hash \<Rightarrow> bool \<times> bool" where
  "SlotInAccessList db a k =
     (case accessList db a of None \<Rightarrow> (False, False) | Some ks \<Rightarrow> (True, k \<in> ks))"

definition AddAddressToAccessList :: "address \<Rightarrow> statedb \<Rightarrow> statedb" where
  "AddAddressToAccessList a db =
     (case accessList db a of
        None \<Rightarrow> db\<lparr>accessList := (accessList db)(a := Some {})\<rparr>
      | Some ks \<Rightarrow> db)"

definition AddSlotToAccessList :: "address \<Rightarrow> hash \<Rightarrow> statedb \<Rightarrow> statedb" where
  "AddSlotToAccessList a k db =
     (case accessList db a of
        None \<Rightarrow> db\<lparr>accessList := (accessList db)(a := Some {k})\<rparr>
      | Some ks \<Rightarrow> db\<lparr>accessList := (accessList db)(a := Some (insert k ks))\<rparr>)"

definition AddRefund :: "uint64 \<Rightarrow> statedb \<Rightarrow> statedb" where
  "AddRefund g db = db\<lparr>refundCalls := refundCalls db @ [AddRefund_call g]\<rparr>"

definition SubRefund :: "uint64 \<Rightarrow> statedb \<Rightarrow> statedb" where
  "SubRefund g db = db\<lparr>refundCalls := refundCalls db @ [SubRefund_call g]\<rparr>"

definition Empty :: "statedb \<Rightarrow> address \<Rightarrow> bool" where
  "Empty db a = emptyAccount db a"

definition GetBalance :: "statedb \<Rightarrow> address \<Rightarrow> int" where
  "GetBalance db a = balance db a"

definition HasSuicided :: "statedb \<Rightarrow> address \<Rightarrow> bool" where
  "HasSuicided db a = suicided db a"

text \<open>The warm (address, slot) pairs of a state database.\<close>

definition warm_slots :: "statedb \<Rightarrow> (address \<times> hash) set" where
  "warm_slots db = {(a, k). snd (SlotInAccessList db a k)}"

subsection \<open>Contract\<close>

text \<open>
  Modelled from the spec: the contract object (``the caller's available gas'', ``the current
  call's address'') is not among the sources. \<^verbatim>\<open>UseGas\<close> deducts from the available gas when
  there is enough and says whether it did.
\<close>

record contract =
  Gas :: uint64
  Address :: address

definition UseGas :: "uint64 \<Rightarrow> contract \<Rightarrow> bool \<times> contract" where
  "UseGas g c = (if Gas c < g then (False, c) else (True, c\<lparr>Gas := Gas c - g\<rparr>))"

subsection \<open>Memory\<close>

text \<open>
  Modelled from the spec: the memory collaborator (``current size, get-pointer/read range,
  write range, resize-to(newSize), and the cost-of-growth-to(newSize) pure function'') is not
  among the sources. The store is a byte slice; \<open>lastGasCost\<close> is the fee already charged for
  the high-water mark.
\<close>

record memory =
  store :: "byte list"
  lastGasCost :: uint64

text \<open>
  \<^verbatim>\<open>Resize(size)\<close> appends \<open>size - len\<close> zero bytes, by \<^verbatim>\<open>append(m.store, make([]byte, n)...)\<close>.
  A Go slice cannot be longer than the largest \<^verbatim>\<open>int\<close>: a number of bytes to append above
  it is refused as a length for \<^verbatim>\<open>make\<close>, and a new length above it is refused when the
  slice grows. Below that bound the model's memory is unbounded (a real machine runs out of
  memory earlier).
\<close>

definition maxInt :: nat where
  "maxInt = 2 ^ 63 - 1"

definition Memory_Len :: "memory \<Rightarrow> uint64" where
  "Memory_Len m = of_nat (length (store m))"

definition Memory_Resize :: "uint64 \<Rightarrow> memory \<Rightarrow> memory outcome" where
  "Memory_Resize sz m =
     (if Memory_Len m < sz
      then (if maxInt < unat (sz - Memory_Len m)
            then Panic ''runtime error: makeslice: len out of range''
            else if maxInt < unat sz
            then Panic ''runtime error: growslice: len out of range''
            else Return (m\<lparr>store := store m @ replicate (unat (sz - Memory_Len m)) 0\<rparr>))
      else Return m)"

text \<open>
  \<^verbatim>\<open>GetPtr(offset, size)\<close> takes \<^verbatim>\<open>int64\<close> arguments and returns the slice
  \<^verbatim>\<open>m.store[offset : offset+size]\<close>, which shares the store's bytes: the model returns where
  the slice starts in the store and how long it is. \<open>None\<close> is the \<^verbatim>\<open>nil\<close> slice. Slicing
  with a negative or decreasing bound, or past the store, panics (the model takes the store's
  capacity to be its length).
\<close>

type_synonym slice = "nat \<times> nat"

definition slice_bounds :: string where
  "slice_bounds = ''runtime error: slice bounds out of range''"

definition Memory_GetPtr :: "uint64 \<Rightarrow> uint64 \<Rightarrow> memory \<Rightarrow> slice option outcome" where
  "Memory_GetPtr offset sz m =
     (if sz = 0 then Return None
      else if sint offset < int (length (store m))
      then (if 0 \<le> sint offset \<and> sint offset \<le> sint (offset + sz)
                \<and> sint (offset + sz) \<le> int (length (store m))
            then Return (Some (nat (sint offset), nat (sint (offset + sz) - sint offset)))
            else Panic slice_bounds)
      else Return None)"

text \<open>
  Go's built-in \<^verbatim>\<open>copy(dst, src)\<close> moves \<open>min (len dst) (len src)\<close> bytes and allows the two
  slices to overlap. Both slices here lie in the one store, so the model moves the bytes in
  place, one at a time: upwards when the destination starts at or below the source, downwards
  otherwise.
\<close>

fun copy_upwards :: "byte list \<Rightarrow> nat \<Rightarrow> nat \<Rightarrow> nat \<Rightarrow> byte list" where
  "copy_upwards st d s 0 = st"
| "copy_upwards st d s (Suc n) = copy_upwards (st[d := st ! s]) (Suc d) (Suc s) n"

fun copy_downwards :: "byte list \<Rightarrow> nat \<Rightarrow> nat \<Rightarrow> nat \<Rightarrow> byte list" where
  "copy_downwards st d s 0 = st"
| "copy_downwards st d s (Suc n) = copy_downwards (st[d + n := st ! (s + n)]) d s n"

definition go_copy :: "byte list \<Rightarrow> slice \<Rightarrow> slice \<Rightarrow> byte list" where
  "go_copy st dst src =
     (let n = min (snd dst) (snd src)
      in if fst dst \<le> fst src then copy_upwards st (fst dst) (fst src) n
         else copy_downwards st (fst dst) (fst src) n)"

text \<open>\<^verbatim>\<open>Set(offset, size, value)\<close> copies \<open>value\<close> into \<^verbatim>\<open>m.store[offset : offset+size]\<close>.\<close>

definition Memory_Set :: "uint64 \<Rightarrow> uint64 \<Rightarrow> slice \<Rightarrow> memory \<Rightarrow> memory outcome" where
  "Memory_Set offset sz val m =
     (if 0 < sz
      then (if Memory_Len m < offset + sz then Panic ''invalid memory: store empty''
            else if offset + sz < offset then Panic slice_bounds
            else Return (m\<lparr>store := go_copy (store m) (unat offset, unat sz) val\<rparr>))
      else Return m)"

text \<open>
  Modelled from the spec: \<^verbatim>\<open>memoryGasCost\<close>, the cost of growing the memory to \<open>newMemSize\<close>
  bytes, is not among the sources (``a quadratic component divided by a fixed scaling constant
  plus a linear-per-word component, charged once as the delta required to reach the new
  high-water mark, never charged for offsets already covered''). With \<open>w\<close> the size in
  32-byte words, the total fee is \<open>w * MemoryGas + w * w div QuadCoeffDiv\<close>, and the charge
  is what this exceeds the fee already charged, which it replaces. Sizes above
  \<open>0x1FFFFFFFE0\<close>, whose fee would not fit 64 bits, are refused with the overflow error.
\<close>

definition toWordSize :: "uint64 \<Rightarrow> uint64" where
  "toWordSize sz = (if - 1 - 31 < sz then (- 1) div 32 + 1 else (sz + 31) div 32)"

definition memoryGasCost :: "memory \<Rightarrow> uint64 \<Rightarrow> (uint64 \<times> error option) \<times> memory" where
  "memoryGasCost mem newMemSize =
     (if newMemSize = 0 then ((0, None), mem)
      else if 0x1FFFFFFFE0 < newMemSize then ((0, Some ErrGasUintOverflow), mem)
      else
        (let newMemSizeWords = toWordSize newMemSize;
             newMemSize' = newMemSizeWords * 32
         in if Memory_Len mem < newMemSize'
            then (let square = newMemSizeWords * newMemSizeWords;
                      linCoef = newMemSizeWords * MemoryGas;
                      quadCoef = square div QuadCoeffDiv;
                      newTotalFee = linCoef + quadCoef;
                      fee = newTotalFee - lastGasCost mem
                  in ((fee, None), mem\<lparr>lastGasCost := newTotalFee\<rparr>))
            else ((0, None), mem)))"

subsection \<open>The call context handed to a gas function\<close>

text \<open>
  A gas function receives pointers to the EVM (for its state database), the contract, the
  stack and the memory, and the requested memory size. The model passes the three mutable
  objects in one record and returns it updated; the stack is only read.
\<close>

record ctx =
  StateDB :: statedb
  Contract :: contract
  Mem :: memory

type_synonym gasFunc = "ctx \<Rightarrow> stack \<Rightarrow> uint64 \<Rightarrow> gas_result \<times> ctx"

definition onStateDB :: "(statedb \<Rightarrow> statedb) \<Rightarrow> ctx \<Rightarrow> ctx" where
  "onStateDB f s = s\<lparr>StateDB := f (StateDB s)\<rparr>"

section \<open>Dynamic gas functions of the access-list family\<close>

subsection \<open>SSTORE\<close>

definition sentry_error :: error where
  "sentry_error = errors_New ''not enough gas for reentrancy sentry''"

definition impossible_case :: string where
  "impossible_case = ''impossible case: address was not present in access list during sstore op''"

definition makeGasSStoreFunc :: "uint64 \<Rightarrow> gasFunc" where
  "makeGasSStoreFunc clearingRefund s stack memorySize =
    (if Gas (Contract s) \<le> SstoreSentryGasEIP2200 then (Return (0, Some sentry_error), s)
     else (case Back stack 1 of None \<Rightarrow> (Panic (out_of_range stack 1), s) | Some y \<Rightarrow>
          (case Peek stack of None \<Rightarrow> (Panic (out_of_range stack 0), s) | Some x \<Rightarrow>
       (let slot = Bytes32 x;
            current = GetState (StateDB s) (Address (Contract s)) slot;
            addrPresent = fst (SlotInAccessList (StateDB s) (Address (Contract s)) slot);
            slotPresent = snd (SlotInAccessList (StateDB s) (Address (Contract s)) slot);
            cost = (if \<not> slotPresent then ColdSloadCostEIP2929 else 0);
            s1 = (if \<not> slotPresent
                  then onStateDB (AddSlotToAccessList (Address (Contract s)) slot) s else s)
        in if \<not> slotPresent \<and> \<not> addrPresent then (Panic impossible_case, s1)
           else
        (let value = Bytes32 y in
        if current = value then (Return (cost + WarmStorageReadCostEIP2929, None), s1)
        else
        (let original = GetCommittedState (StateDB s1) (Address (Contract s1)) (Bytes32 x) in
        if original = current then
          (if original = 0 then (Return (cost + SstoreSetGasEIP2200, None), s1)
           else
             (let s2 = (if value = 0 then onStateDB (AddRefund clearingRefund) s1 else s1)
              in (Return (cost + (SstoreResetGasEIP2200 - ColdSloadCostEIP2929), None), s2)))
        else
        (let s2 = (if original \<noteq> 0
                   then (if current = 0 then onStateDB (SubRefund clearingRefund) s1
                         else if value = 0 then onStateDB (AddRefund clearingRefund) s1
                         else s1)
                   else s1);
             s3 = (if original = value
                   then (if original = 0
                         then onStateDB (AddRefund (SstoreSetGasEIP2200
                                                     - WarmStorageReadCostEIP2929)) s2
                         else onStateDB (AddRefund ((SstoreResetGasEIP2200 - ColdSloadCostEIP2929)
                                                     - WarmStorageReadCostEIP2929)) s2)
                   else s2)
         in (Return (cost + WarmStorageReadCostEIP2929, None), s3))))))))"

definition gasSStoreEIP2929 :: gasFunc where
  "gasSStoreEIP2929 = makeGasSStoreFunc SstoreClearsScheduleRefundEIP2200"

definition gasSStoreEIP3529 :: gasFunc where
  "gasSStoreEIP3529 = makeGasSStoreFunc SstoreClearsScheduleRefundEIP3529"

subsection \<open>SLOAD\<close>

definition gasSLoadEIP2929 :: gasFunc where
  "gasSLoadEIP2929 s stack memorySize =
    (case Peek stack of None \<Rightarrow> (Panic (out_of_range stack 0), s) | Some loc \<Rightarrow>
       (let slot = Bytes32 loc in
        if \<not> snd (SlotInAccessList (StateDB s) (Address (Contract s)) slot)
        then (Return (ColdSloadCostEIP2929, None),
              onStateDB (AddSlotToAccessList (Address (Contract s)) slot) s)
        else (Return (WarmStorageReadCostEIP2929, None), s)))"

subsection \<open>EXTCODECOPY and the account checks\<close>

text \<open>\<^verbatim>\<open>gasExtCodeCopy\<close>, the pre-access-list cost function, is not among the sources: it is
  a parameter.\<close>

definition gasExtCodeCopyEIP2929 :: "gasFunc \<Rightarrow> gasFunc" where
  "gasExtCodeCopyEIP2929 gasExtCodeCopy s stack memorySize =
    (case gasExtCodeCopy s stack memorySize of
       (Panic m, s1) \<Rightarrow> (Panic m, s1)
     | (Return (gas, Some err), s1) \<Rightarrow> (Return (0, Some err), s1)
     | (Return (gas, None), s1) \<Rightarrow>
        (case Peek stack of None \<Rightarrow> (Panic (out_of_range stack 0), s1) | Some item \<Rightarrow>
          (let addr = Bytes20 item in
           if \<not> AddressInAccessList (StateDB s1) addr then
             (let s2 = onStateDB (AddAddressToAccessList addr) s1;
                  r = SafeAdd gas (ColdAccountAccessCostEIP2929 - WarmStorageReadCostEIP2929)
              in if snd r then (Return (0, Some ErrGasUintOverflow), s2)
                 else (Return (fst r, None), s2))
           else (Return (gas, None), s1))))"

definition gasEip2929AccountCheck :: gasFunc where
  "gasEip2929AccountCheck s stack memorySize =
    (case Peek stack of None \<Rightarrow> (Panic (out_of_range stack 0), s) | Some item \<Rightarrow>
       (let addr = Bytes20 item in
        if \<not> AddressInAccessList (StateDB s) addr
        then (Return (ColdAccountAccessCostEIP2929 - WarmStorageReadCostEIP2929, None),
              onStateDB (AddAddressToAccessList addr) s)
        else (Return (0, None), s)))"

subsection \<open>The call variants\<close>

text \<open>The prior cost functions (\<^verbatim>\<open>gasCall\<close>, \<^verbatim>\<open>gasCallCode\<close>, \<^verbatim>\<open>gasDelegateCall\<close>,
  \<^verbatim>\<open>gasStaticCall\<close>) are not among the sources: \<open>oldCalculator\<close> is any gas function.\<close>

definition coldCost :: uint64 where
  "coldCost = ColdAccountAccessCostEIP2929 - WarmStorageReadCostEIP2929"

definition makeCallVariantGasCallEIP2929 :: "gasFunc \<Rightarrow> gasFunc" where
  "makeCallVariantGasCallEIP2929 oldCalculator s stack memorySize =
    (case Back stack 1 of None \<Rightarrow> (Panic (out_of_range stack 1), s) | Some a \<Rightarrow>
       (let addr = Bytes20 a;
            warmAccess = AddressInAccessList (StateDB s) addr;
            s1 = (if \<not> warmAccess then onStateDB (AddAddressToAccessList addr) s else s)
        in if \<not> warmAccess \<and> \<not> fst (UseGas coldCost (Contract s1))
           then (Return (0, Some ErrOutOfGas), s1)
           else
        (let s2 = (if \<not> warmAccess then s1\<lparr>Contract := snd (UseGas coldCost (Contract s1))\<rparr>
                   else s1)
         in (case oldCalculator s2 stack memorySize of
               (Panic m, s3) \<Rightarrow> (Panic m, s3)
             | (Return (gas, err), s3) \<Rightarrow>
                 if warmAccess \<or> err \<noteq> None then (Return (gas, err), s3)
                 else (Return (gas + coldCost, None),
                       s3\<lparr>Contract := (Contract s3)\<lparr>Gas := Gas (Contract s3) + coldCost\<rparr>\<rparr>)))))"

subsection \<open>SELFDESTRUCT\<close>

definition makeSelfdestructGasFn :: "bool \<Rightarrow> gasFunc" where
  "makeSelfdestructGasFn refundsEnabled s stack memorySize =
    (case Peek stack of None \<Rightarrow> (Panic (out_of_range stack 0), s) | Some item \<Rightarrow>
       (let address = Bytes20 item;
            cold = (\<not> AddressInAccessList (StateDB s) address);
            s1 = (if cold then onStateDB (AddAddressToAccessList address) s else s);
            gas0 = (if cold then ColdAccountAccessCostEIP2929 else 0);
            gas1 = (if Empty (StateDB s1) address
                       \<and> GetBalance (StateDB s1) (Address (Contract s1)) \<noteq> 0
                    then gas0 + CreateBySelfdestructGas else gas0);
            s2 = (if refundsEnabled \<and> \<not> HasSuicided (StateDB s1) (Address (Contract s1))
                  then onStateDB (AddRefund SelfdestructRefundGas) s1 else s1)
        in (Return (gas1, None), s2)))"

definition gasSelfdestructEIP2929 :: gasFunc where
  "gasSelfdestructEIP2929 = makeSelfdestructGasFn True"

definition gasSelfdestructEIP3529 :: gasFunc where
  "gasSelfdestructEIP3529 = makeSelfdestructGasFn False"

subsection \<open>MCOPY and the init-code size limit\<close>

text \<open>The gas functions print diagnostics with \<^verbatim>\<open>fmt.Printf\<close>; the output is not modelled.\<close>

definition copyGasPerByte :: uint64 where
  "copyGasPerByte = 3"

definition gasMCopy :: gasFunc where
  "gasMCopy s stack memorySize =
    (case Back stack 0 of None \<Rightarrow> (Panic (out_of_range stack 0), s) | Some v0 \<Rightarrow>
    (case Back stack 1 of None \<Rightarrow> (Panic (out_of_range stack 1), s) | Some v1 \<Rightarrow>
    (case Back stack 2 of None \<Rightarrow> (Panic (out_of_range stack 2), s) | Some v2 \<Rightarrow>
      (let len = Uint64 v0;
           src = Uint64 v1;
           dst = Uint64 v2;
           endDst = fst (SafeAdd dst len); overflow1 = snd (SafeAdd dst len);
           endSrc = fst (SafeAdd src len); overflow2 = snd (SafeAdd src len)
       in if overflow1 \<or> overflow2 then (Return (0, Some ErrGasUintOverflow), s)
          else
       (let maxEnd = (if endDst < endSrc then endSrc else endDst);
            memGas = fst (fst (memoryGasCost (Mem s) maxEnd));
            err = snd (fst (memoryGasCost (Mem s) maxEnd));
            s1 = s\<lparr>Mem := snd (memoryGasCost (Mem s) maxEnd)\<rparr>
        in (case err of Some e \<Rightarrow> (Return (0, Some e), s1) | None \<Rightarrow>
       (let copyCost = fst (SafeMul copyGasPerByte len);
            overflow3 = snd (SafeMul copyGasPerByte len)
        in if overflow3 then (Return (0, Some ErrGasUintOverflow), s1)
           else
       (let totalGas = fst (SafeAdd memGas copyCost);
            overflow4 = snd (SafeAdd memGas copyCost)
        in if overflow4 then (Return (0, Some ErrGasUintOverflow), s1)
           else (Return (totalGas, None), s1)))))))))"

definition maxInitCodeSize :: uint64 where
  "maxInitCodeSize = 49152"

definition gasCreateEIP3860 :: gasFunc where
  "gasCreateEIP3860 s stack memorySize =
    (case Back stack 0 of None \<Rightarrow> (Panic (out_of_range stack 0), s) | Some v0 \<Rightarrow>
    (case Back stack 1 of None \<Rightarrow> (Panic (out_of_range stack 1), s) | Some v1 \<Rightarrow>
      (let sz = Uint64 v0;
           offset = Uint64 v1
       in if maxInitCodeSize < sz then (Return (0, Some ErrMaxInitCodeSizeExceeded), s)
          else
       (let requiredMemSize = fst (SafeAdd offset sz); overflow = snd (SafeAdd offset sz)
        in if overflow then (Return (0, Some ErrGasUintOverflow), s)
           else
       (let memGas = fst (fst (memoryGasCost (Mem s) requiredMemSize));
            err = snd (fst (memoryGasCost (Mem s) requiredMemSize));
            s1 = s\<lparr>Mem := snd (memoryGasCost (Mem s) requiredMemSize)\<rparr>
        in (case err of Some e \<Rightarrow> (Return (0, Some e), s1) | None \<Rightarrow>
       (let chunkCount = (sz + 31) div 32;
            overhead = fst (SafeMul chunkCount 2); overflow2 = snd (SafeMul chunkCount 2)
        in if overflow2 then (Return (0, Some ErrGasUintOverflow), s1)
           else
       (let totalGas = fst (SafeAdd memGas overhead); overflow3 = snd (SafeAdd memGas overhead)
        in if overflow3 then (Return (0, Some ErrGasUintOverflow), s1)
           else (Return (totalGas, None), s1)))))))))"

text \<open>\<^verbatim>\<open>gasCreate2EIP3860\<close> has the same body.\<close>

definition gasCreate2EIP3860 :: gasFunc where
  "gasCreate2EIP3860 = gasCreateEIP3860"

text \<open>
  An execution function works on the scope's stack and memory and returns output bytes
  (\<open>None\<close> for \<^verbatim>\<open>nil\<close>) and an error.
\<close>

record scope =
  Stack :: stack
  Memory :: memory

type_synonym exec_result = "(byte list option \<times> error option) outcome"

definition opMCopy :: "scope \<Rightarrow> exec_result \<times> scope" where
  "opMCopy sc =
    (case Pop (Stack sc) of None \<Rightarrow> (Panic (out_of_range (Stack sc) 0), sc) | Some (val, st1) \<Rightarrow>
    (case Pop st1 of None \<Rightarrow> (Panic (out_of_range st1 0), sc\<lparr>Stack := st1\<rparr>)
     | Some (val2, st2) \<Rightarrow>
    (case Pop st2 of None \<Rightarrow> (Panic (out_of_range st2 0), sc\<lparr>Stack := st2\<rparr>)
     | Some (val3, st3) \<Rightarrow>
      (let len = Uint64 val;
           dst = Uint64 val2;
           src = Uint64 val3;
           sc3 = sc\<lparr>Stack := st3\<rparr>
       in if len = 0 then (Return (None, None), sc3)
          else
       (let endSrc = fst (SafeAdd src len); overflow1 = snd (SafeAdd src len);
            endDst = fst (SafeAdd dst len); overflow2 = snd (SafeAdd dst len)
        in if overflow1 \<or> overflow2 then (Return (None, Some ErrMemoryOverflow), sc3)
           else
       (let maxEnd = (if endSrc < endDst then endDst else endSrc)
        in (case Memory_Resize maxEnd (Memory sc3) of
              Panic m \<Rightarrow> (Panic m, sc3)
            | Return m1 \<Rightarrow>
           (case Memory_GetPtr src len m1 of
              Panic m \<Rightarrow> (Panic m, sc3\<lparr>Memory := m1\<rparr>)
            | Return None \<Rightarrow> (Return (None, Some ErrMemoryOverflow), sc3\<lparr>Memory := m1\<rparr>)
            | Return (Some srcData) \<Rightarrow>
           (case Memory_Set dst len srcData m1 of
              Panic m \<Rightarrow> (Panic m, sc3\<lparr>Memory := m1\<rparr>)
            | Return m2 \<Rightarrow> (Return (None, None), sc3\<lparr>Memory := m2\<rparr>))))))))))"


section \<open>Jump table and feature activators\<close>

subsection \<open>Operations and the table\<close>

text \<open>
  Modelled from the spec: the operation descriptor (``an executable action, a constant gas
  charge, an optional dynamic gas function, and required stack-depth bounds''), the opcode
  bytes and the stack-bound helpers \<^verbatim>\<open>minStack\<close> and \<^verbatim>\<open>maxStack\<close> (here \<open>minStack_of\<close> and
  \<open>maxStack_of\<close>: the items an operation needs on the stack, and the depth up to which it
  does not overflow the stack limit) are declared outside the sources. Go compares function
  values by identity only, so the two function fields hold the name of the function
  installed (\<open>None\<close> for \<^verbatim>\<open>nil\<close>).
\<close>

datatype executionFunc =
    opSelfBalance_ref
  | opChainID_ref
  | opBaseFee_ref
  | opPush0_ref
  | opMCopy_ref
  | executionFunc_other nat

datatype gasFunc_ref =
    gasSStoreEIP2200_ref
  | gasSStoreEIP2929_ref
  | gasSStoreEIP3529_ref
  | gasSLoadEIP2929_ref
  | gasExtCodeCopyEIP2929_ref
  | gasEip2929AccountCheck_ref
  | gasCallEIP2929_ref
  | gasCallCodeEIP2929_ref
  | gasStaticCallEIP2929_ref
  | gasDelegateCallEIP2929_ref
  | gasSelfdestructEIP2929_ref
  | gasSelfdestructEIP3529_ref
  | gasMCopy_ref
  | gasFunc_other nat

record operation =
  execute :: "executionFunc option"
  constantGas :: uint64
  dynamicGas :: "gasFunc_ref option"
  minStack :: int
  maxStack :: int

definition minStack_of :: "int \<Rightarrow> int \<Rightarrow> int" where
  "minStack_of pops push = pops"

definition maxStack_of :: "int \<Rightarrow> int \<Rightarrow> int" where
  "maxStack_of pop push = StackLimit + pop - push"

definition BALANCE :: byte where "BALANCE = 0x31"
definition EXTCODESIZE :: byte where "EXTCODESIZE = 0x3b"
definition EXTCODECOPY :: byte where "EXTCODECOPY = 0x3c"
definition EXTCODEHASH :: byte where "EXTCODEHASH = 0x3f"
definition CHAINID :: byte where "CHAINID = 0x46"
definition SELFBALANCE :: byte where "SELFBALANCE = 0x47"
definition BASEFEE :: byte where "BASEFEE = 0x48"
definition SLOAD :: byte where "SLOAD = 0x54"
definition SSTORE :: byte where "SSTORE = 0x55"
definition MCOPY :: byte where "MCOPY = 0x5e"
definition PUSH0 :: byte where "PUSH0 = 0x5f"
definition CALL :: byte where "CALL = 0xf1"
definition CALLCODE :: byte where "CALLCODE = 0xf2"
definition DELEGATECALL :: byte where "DELEGATECALL = 0xf4"
definition STATICCALL :: byte where "STATICCALL = 0xfa"
definition SELFDESTRUCT :: byte where "SELFDESTRUCT = 0xff"

text \<open>
  A \<^verbatim>\<open>JumpTable\<close> is an array of 256 pointers to operations, and an activator writes through
  these pointers: two entries that point to one operation share every write. The model keeps
  the array (\<open>None\<close> for a \<^verbatim>\<open>nil\<close> entry), the operations by reference, and the next unused
  reference, which is what \<^verbatim>\<open>&operation{...}\<close> allocates.
\<close>

type_synonym ref = nat

record JumpTable =
  entries :: "byte \<Rightarrow> ref option"
  heap :: "ref \<Rightarrow> operation"
  next_ref :: ref

text \<open>The operation descriptor an opcode byte dispatches to.\<close>

definition descriptor :: "JumpTable \<Rightarrow> byte \<Rightarrow> operation option" where
  "descriptor jt opc = map_option (heap jt) (entries jt opc)"

text \<open>Every pointer of the array refers to an allocated operation.\<close>

definition allocated :: "JumpTable \<Rightarrow> bool" where
  "allocated jt = (\<forall>opc. case entries jt opc of None \<Rightarrow> True | Some p \<Rightarrow> p < next_ref jt)"

text \<open>
  The three statements an activator is made of: \<^verbatim>\<open>jt[op].constantGas = g\<close>,
  \<^verbatim>\<open>jt[op].dynamicGas = f\<close> (both panic on a \<^verbatim>\<open>nil\<close> entry) and
  \<^verbatim>\<open>jt[op] = &operation{...}\<close>.
\<close>

datatype stmt =
    SetConstantGas byte uint64
  | SetDynamicGas byte gasFunc_ref
  | SetOperation byte operation

definition nil_dereference :: string where
  "nil_dereference = ''runtime error: invalid memory address or nil pointer dereference''"

fun run_stmt :: "stmt \<Rightarrow> JumpTable \<Rightarrow> JumpTable outcome" where
  "run_stmt (SetConstantGas opc g) jt =
     (case entries jt opc of
        None \<Rightarrow> Panic nil_dereference
      | Some p \<Rightarrow> Return (jt\<lparr>heap := (heap jt)(p := (heap jt p)\<lparr>constantGas := g\<rparr>)\<rparr>))"
| "run_stmt (SetDynamicGas opc f) jt =
     (case entries jt opc of
        None \<Rightarrow> Panic nil_dereference
      | Some p \<Rightarrow> Return (jt\<lparr>heap := (heap jt)(p := (heap jt p)\<lparr>dynamicGas := Some f\<rparr>)\<rparr>))"
| "run_stmt (SetOperation opc d) jt =
     Return (jt\<lparr>entries := (entries jt)(opc := Some (next_ref jt)),
                heap := (heap jt)(next_ref jt := d),
                next_ref := Suc (next_ref jt)\<rparr>)"

fun run_stmts :: "stmt list \<Rightarrow> JumpTable \<Rightarrow> JumpTable outcome" where
  "run_stmts [] jt = Return jt"
| "run_stmts (c # cs) jt =
     (case run_stmt c jt of Panic m \<Rightarrow> Panic m | Return jt' \<Rightarrow> run_stmts cs jt')"

subsection \<open>The activators\<close>

type_synonym activator = "JumpTable \<Rightarrow> JumpTable outcome"

definition enable1884 :: activator where
  "enable1884 = run_stmts
     [SetConstantGas SLOAD SloadGasEIP1884,
      SetConstantGas BALANCE BalanceGasEIP1884,
      SetConstantGas EXTCODEHASH ExtcodeHashGasEIP1884,
      SetOperation SELFBALANCE
        \<lparr>execute = Some opSelfBalance_ref, constantGas = GasFastStep, dynamicGas = None,
         minStack = minStack_of 0 1, maxStack = maxStack_of 0 1\<rparr>]"

definition enable1344 :: activator where
  "enable1344 = run_stmts
     [SetOperation CHAINID
        \<lparr>execute = Some opChainID_ref, constantGas = GasQuickStep, dynamicGas = None,
         minStack = minStack_of 0 1, maxStack = maxStack_of 0 1\<rparr>]"

definition enable2200 :: activator where
  "enable2200 = run_stmts
     [SetConstantGas SLOAD SloadGasEIP2200,
      SetDynamicGas SSTORE gasSStoreEIP2200_ref]"

definition enable2929 :: activator where
  "enable2929 = run_stmts
     [SetDynamicGas SSTORE gasSStoreEIP2929_ref,
      SetConstantGas SLOAD 0,
      SetDynamicGas SLOAD gasSLoadEIP2929_ref,
      SetConstantGas EXTCODECOPY WarmStorageReadCostEIP2929,
      SetDynamicGas EXTCODECOPY gasExtCodeCopyEIP2929_ref,
      SetConstantGas EXTCODESIZE WarmStorageReadCostEIP2929,
      SetDynamicGas EXTCODESIZE gasEip2929AccountCheck_ref,
      SetConstantGas EXTCODEHASH WarmStorageReadCostEIP2929,
      SetDynamicGas EXTCODEHASH gasEip2929AccountCheck_ref,
      SetConstantGas BALANCE WarmStorageReadCostEIP2929,
      SetDynamicGas BALANCE gasEip2929AccountCheck_ref,
      SetConstantGas CALL WarmStorageReadCostEIP2929,
      SetDynamicGas CALL gasCallEIP2929_ref,
      SetConstantGas CALLCODE WarmStorageReadCostEIP2929,
      SetDynamicGas CALLCODE gasCallCodeEIP2929_ref,
      SetConstantGas STATICCALL WarmStorageReadCostEIP2929,
      SetDynamicGas STATICCALL gasStaticCallEIP2929_ref,
      SetConstantGas DELEGATECALL WarmStorageReadCostEIP2929,
      SetDynamicGas DELEGATECALL gasDelegateCallEIP2929_ref,
      SetConstantGas SELFDESTRUCT SelfdestructGasEIP150,
      SetDynamicGas SELFDESTRUCT gasSelfdestructEIP2929_ref]"

definition enable3529 :: activator where
  "enable3529 = run_stmts
     [SetDynamicGas SSTORE gasSStoreEIP3529_ref,
      SetDynamicGas SELFDESTRUCT gasSelfdestructEIP3529_ref]"

definition enable3198 :: activator where
  "enable3198 = run_stmts
     [SetOperation BASEFEE
        \<lparr>execute = Some opBaseFee_ref, constantGas = GasQuickStep, dynamicGas = None,
         minStack = minStack_of 0 1, maxStack = maxStack_of 0 1\<rparr>]"

definition enable3855 :: activator where
  "enable3855 = run_stmts
     [SetOperation PUSH0
        \<lparr>execute = Some opPush0_ref, constantGas = GasQuickStep, dynamicGas = None,
         minStack = minStack_of 0 1, maxStack = maxStack_of 0 1\<rparr>]"

definition enable5656 :: activator where
  "enable5656 = run_stmts
     [SetOperation MCOPY
        \<lparr>execute = Some opMCopy_ref, constantGas = 0, dynamicGas = Some gasMCopy_ref,
         minStack = minStack_of 3 0, maxStack = maxStack_of 3 0\<rparr>]"

definition activators :: "string \<Rightarrow> activator option" where
  "activators = map_of
     [(''ethereum_5656'', enable5656),
      (''ethereum_3855'', enable3855),
      (''ethereum_3529'', enable3529),
      (''ethereum_3198'', enable3198),
      (''ethereum_2929'', enable2929),
      (''ethereum_2200'', enable2200),
      (''ethereum_1884'', enable1884),
      (''ethereum_1344'', enable1344)]"

subsection \<open>Enabling and validating a feature name\<close>

text \<open>
  \<^verbatim>\<open>EnableEIP\<close> writes the table in place and returns an error or \<^verbatim>\<open>nil\<close>: the model
  returns the error together with the table as the call leaves it. When the activator
  panics, \<^verbatim>\<open>EnableEIP\<close> does not return and the panic goes on to its caller; the table is
  then left with the fields the activator wrote before the \<^verbatim>\<open>nil\<close> entry, which the result
  of a panic, here as for the activators, does not carry.
\<close>

definition EnableEIP :: "string \<Rightarrow> JumpTable \<Rightarrow> (error option \<times> JumpTable) outcome" where
  "EnableEIP eipName jt =
     (case activators eipName of
        None \<Rightarrow> Return (Some (errors_New (''undefined eip '' @ eipName)), jt)
      | Some enablerFn \<Rightarrow>
          (case enablerFn jt of
             Panic m \<Rightarrow> Panic m
           | Return jt' \<Rightarrow> Return (None, jt')))"

definition ExistsEipActivator :: "string \<Rightarrow> bool" where
  "ExistsEipActivator eipName = (activators eipName \<noteq> None)"

text \<open>
  \<^verbatim>\<open>strings.Split(s, "_")\<close>: the substrings of \<open>s\<close> between the separators, in order; a string
  without separator is returned whole.
\<close>

fun strings_Split :: "string \<Rightarrow> char \<Rightarrow> string list" where
  "strings_Split [] sep = [[]]"
| "strings_Split (c # cs) sep =
     (if c = sep then [] # strings_Split cs sep
      else (case strings_Split cs sep of
              [] \<Rightarrow> [[c]]
            | part # parts \<Rightarrow> (c # part) # parts))"

text \<open>
  \<^verbatim>\<open>strconv.Atoi(s)\<close> is \<^verbatim>\<open>ParseInt(s, 10, 0)\<close>: an optional sign, then one or more decimal
  digits, whose value must fit a 64-bit \<^verbatim>\<open>int\<close>. Anything else is a syntax error, and a value
  out of range a range error.
\<close>

datatype NumError = ErrSyntax | ErrRange

definition digit_of :: "char \<Rightarrow> nat option" where
  "digit_of c =
     (if (48::nat) \<le> of_char c \<and> of_char c \<le> (57::nat) then Some (of_char c - 48) else None)"

fun parse_digits :: "nat \<Rightarrow> string \<Rightarrow> nat option" where
  "parse_digits n [] = Some n"
| "parse_digits n (c # cs) =
     (case digit_of c of None \<Rightarrow> None | Some d \<Rightarrow> parse_digits (n * 10 + d) cs)"

definition strconv_Atoi :: "string \<Rightarrow> NumError + int" where
  "strconv_Atoi s =
     (case s of
        [] \<Rightarrow> Inl ErrSyntax
      | c # cs \<Rightarrow>
         (let neg = (c = CHR ''-'');
              ds = (if c = CHR ''+'' \<or> c = CHR ''-'' then cs else s)
          in if ds = [] then Inl ErrSyntax
             else (case parse_digits 0 ds of
                     None \<Rightarrow> Inl ErrSyntax
                   | Some un \<Rightarrow>
                       if \<not> neg \<and> 2 ^ 63 \<le> un then Inl ErrRange
                       else if neg \<and> 2 ^ 63 < un then Inl ErrRange
                       else Inr (if neg then - int un else int un))))"

definition structure_error :: error where
  "structure_error = errors_New (''eip name does not conform to structure ''
     @ [CHR 0x27] @ ''chainName_Number'' @ [CHR 0x27])"

definition number_error :: error where
  "number_error = errors_New ''eip number should be convertible to int''"

definition ValidateEIPName :: "string \<Rightarrow> error option" where
  "ValidateEIPName eipName =
     (let eipSplit = strings_Split eipName CHR ''_''
      in if length eipSplit \<noteq> 2 then Some structure_error
         else (case strconv_Atoi (eipSplit ! 1) of
                 Inl err \<Rightarrow> Some number_error
               | Inr n \<Rightarrow> None))"

text \<open>
  The form the spec names: a chain name (a namespace without underscore), an underscore, and
  an integer in decimal notation (an optional sign and one or more digits) that fits Go's
  \<^verbatim>\<open>int\<close>.
\<close>

definition decimal_value :: "nat list \<Rightarrow> nat" where
  "decimal_value ds = foldl (\<lambda>n d. n * 10 + d) 0 ds"

definition is_digits :: "string \<Rightarrow> bool" where
  "is_digits ds = (ds \<noteq> [] \<and> list_all (\<lambda>c. c \<in> set ''0123456789'') ds)"

definition digits_value :: "string \<Rightarrow> nat" where
  "digits_value ds = decimal_value (map (\<lambda>c. of_char c - 48) ds)"

definition is_int_text :: "string \<Rightarrow> bool" where
  "is_int_text num =
     (\<exists>ds. is_digits ds \<and>
        ((num = ds \<or> num = CHR ''+'' # ds) \<and> digits_value ds < 2 ^ 63
         \<or> num = CHR ''-'' # ds \<and> digits_value ds \<le> 2 ^ 63))"

definition conforms :: "string \<Rightarrow> bool" where
  "conforms eipName =
     (\<exists>chainName num. eipName = chainName @ ''_'' @ num
        \<and> CHR ''_'' \<notin> set chainName \<and> is_int_text num)"

section \<open>Notions used in the statements\<close>

subsection \<open>The SSTORE table of the spec\<close>

text \<open>
  The classification table of the spec, row by row, for the slot's value at transaction start
  (\<open>original\<close>), its value before the write (\<open>current\<close>) and the value written (\<open>val\<close>): the
  charge of the row, and the refund calls it makes, in order.
\<close>

definition sstore_table ::
    "uint64 \<Rightarrow> hash \<Rightarrow> hash \<Rightarrow> hash \<Rightarrow> uint64 \<times> refund_call list" where
  "sstore_table clearingRefund original current val =
     (if current = val then (WarmStorageReadCostEIP2929, [])
      else if original = current \<and> original = 0 then (SstoreSetGasEIP2200, [])
      else if original = current \<and> val = 0
        then (SstoreResetGasEIP2200 - ColdSloadCostEIP2929, [AddRefund_call clearingRefund])
      else if original = current then (SstoreResetGasEIP2200 - ColdSloadCostEIP2929, [])
      else (WarmStorageReadCostEIP2929,
            (if original \<noteq> 0 \<and> current = 0 then [SubRefund_call clearingRefund]
             else if original \<noteq> 0 \<and> val = 0 then [AddRefund_call clearingRefund]
             else [])
            @ (if original = val \<and> original = 0
                 then [AddRefund_call (SstoreSetGasEIP2200 - WarmStorageReadCostEIP2929)]
               else if original = val
                 then [AddRefund_call ((SstoreResetGasEIP2200 - ColdSloadCostEIP2929)
                                        - WarmStorageReadCostEIP2929)]
               else [])))"

text \<open>Making the refund calls \<open>cs\<close> after those already made.\<close>

definition refunds :: "refund_call list \<Rightarrow> statedb \<Rightarrow> statedb" where
  "refunds cs db = db\<lparr>refundCalls := refundCalls db @ cs\<rparr>"

subsection \<open>Field writes of an activator\<close>

text \<open>
  A statement that writes a field of an existing operation, the opcode a statement is about,
  its effect on the operation it writes to, and the statements of a list that write through
  the reference \<open>p\<close>.
\<close>

fun is_field_write :: "stmt \<Rightarrow> bool" where
  "is_field_write (SetOperation opc d) = False"
| "is_field_write _ = True"

fun target :: "stmt \<Rightarrow> byte" where
  "target (SetConstantGas opc g) = opc"
| "target (SetDynamicGas opc f) = opc"
| "target (SetOperation opc d) = opc"

fun write_field :: "stmt \<Rightarrow> operation \<Rightarrow> operation" where
  "write_field (SetConstantGas opc g) d = d\<lparr>constantGas := g\<rparr>"
| "write_field (SetDynamicGas opc f) d = d\<lparr>dynamicGas := Some f\<rparr>"
| "write_field (SetOperation opc d') d = d"

definition writes_to :: "JumpTable \<Rightarrow> ref \<Rightarrow> stmt list \<Rightarrow> stmt list" where
  "writes_to jt p cs = filter (\<lambda>c. entries jt (target c) = Some p) cs"

text \<open>A table in which every opcode has an operation of its own, all of them undefined.\<close>

definition undefined_operation :: operation where
  "undefined_operation =
     \<lparr>execute = None, constantGas = 0, dynamicGas = None,
      minStack = minStack_of 0 0, maxStack = maxStack_of 0 0\<rparr>"

definition example_table :: JumpTable where
  "example_table =
     \<lparr>entries = (\<lambda>opc. Some (unat opc)), heap = (\<lambda>p. undefined_operation), next_ref = 256\<rparr>"

subsection \<open>Gas functions and the access list\<close>

text \<open>
  A gas function keeps warm slots when no call of it removes a pair from the access list.
  The gas functions of the sources, given which prior cost functions the two wrappers are
  applied to. And the relation between a state database and a later one of the same
  transaction context, reached by any number of gas computations (each on any contract,
  stack and memory).
\<close>

definition keeps_warm :: "gasFunc \<Rightarrow> bool" where
  "keeps_warm g =
     (\<forall>s stack memorySize. warm_slots (StateDB s) \<subseteq> warm_slots (StateDB (snd (g s stack memorySize))))"

definition is_gas_function :: "(gasFunc \<Rightarrow> bool) \<Rightarrow> gasFunc \<Rightarrow> bool" where
  "is_gas_function prior g =
     ((\<exists>clearingRefund. g = makeGasSStoreFunc clearingRefund)
      \<or> g = gasSLoadEIP2929
      \<or> (\<exists>old. prior old \<and> g = gasExtCodeCopyEIP2929 old)
      \<or> g = gasEip2929AccountCheck
      \<or> (\<exists>old. prior old \<and> g = makeCallVariantGasCallEIP2929 old)
      \<or> (\<exists>refundsEnabled. g = makeSelfdestructGasFn refundsEnabled)
      \<or> g = gasMCopy
      \<or> g = gasCreateEIP3860
      \<or> g = gasCreate2EIP3860)"

inductive later :: "(gasFunc \<Rightarrow> bool) \<Rightarrow> statedb \<Rightarrow> statedb \<Rightarrow> bool" for prior where
  now: "later prior db db"
| after: "later prior db db1 \<Longrightarrow> is_gas_function prior g \<Longrightarrow> StateDB s = db1
          \<Longrightarrow> later prior db (StateDB (snd (g s stack memorySize)))"

subsection \<open>Concrete contexts\<close>

text \<open>
  A state database with empty storage in which address 1 is warm and no slot is; a context
  whose contract is at address 1 with plenty of gas; the same with the contract at the cold
  address 2; and the same with only 100 gas left.
\<close>

definition example_db :: statedb where
  "example_db =
     \<lparr>storage = (\<lambda>a k. 0), committed = (\<lambda>a k. 0), accessList = (\<lambda>a. None)(1 := Some {}),
      refundCalls = [], emptyAccount = (\<lambda>a. False), balance = (\<lambda>a. 0),
      suicided = (\<lambda>a. False)\<rparr>"

definition example_ctx :: ctx where
  "example_ctx =
     \<lparr>StateDB = example_db, Contract = \<lparr>Gas = 100000, Address = 1\<rparr>,
      Mem = \<lparr>store = [], lastGasCost = 0\<rparr>\<rparr>"

definition cold_ctx :: ctx where
  "cold_ctx = example_ctx\<lparr>Contract := \<lparr>Gas = 100000, Address = 2\<rparr>\<rparr>"

definition poor_ctx :: ctx where
  "poor_ctx = example_ctx\<lparr>Contract := \<lparr>Gas = 100, Address = 1\<rparr>\<rparr>"


text \<open>A prior cost function that charges 7 and one that fails, both leaving the context alone.\<close>

definition charges_seven :: gasFunc where
  "charges_seven s stack memorySize = (Return (7, None), s)"

definition always_fails :: gasFunc where
  "always_fails s stack memorySize = (Return (0, Some ErrOutOfGas), s)"

section \<open>Properties\<close>

subsection \<open>Helper facts\<close>

lemma Back_Suc0: "Back stack 1 = Some v \<Longrightarrow> Back stack (Suc 0) = Some v"
  by simp

lemma Contract_onStateDB: "Contract (onStateDB f s) = Contract s"
  by (simp add: onStateDB_def)

lemma StateDB_onStateDB: "StateDB (onStateDB f s) = f (StateDB s)"
  by (simp add: onStateDB_def)

lemma refunds_Nil: "onStateDB (refunds []) s = s"
  by (simp add: refunds_def onStateDB_def)

lemma refunds_Add: "onStateDB (AddRefund g) s = onStateDB (refunds [AddRefund_call g]) s"
  by (simp add: refunds_def onStateDB_def AddRefund_def)

lemma refunds_Sub: "onStateDB (SubRefund g) s = onStateDB (refunds [SubRefund_call g]) s"
  by (simp add: refunds_def onStateDB_def SubRefund_def)

lemma refunds_append:
  "onStateDB (refunds cs) (onStateDB (refunds bs) s) = onStateDB (refunds (bs @ cs)) s"
  by (simp add: refunds_def onStateDB_def)

lemma committed_AddSlot: "GetCommittedState (AddSlotToAccessList a k db) = GetCommittedState db"
  by (auto simp: GetCommittedState_def AddSlotToAccessList_def fun_eq_iff split: option.splits)

lemma fst_SlotInAccessList: "fst (SlotInAccessList db a k) = AddressInAccessList db a"
  by (auto simp: AddressInAccessList_def SlotInAccessList_def split: option.splits)

lemma memoryGasCost_error:
  "snd (fst (memoryGasCost m n)) = Some e \<Longrightarrow> e = ErrGasUintOverflow"
  by (auto simp: memoryGasCost_def Let_def split: if_splits)

lemma if_less_max:
  fixes a b :: uint64
  shows "(if a < b then b else a) = max a b"
  by (auto simp: max_def)

lemma makeCallVariantGasCallEIP2929_cases:
  assumes a: "Back stack 1 = Some item"
  shows "makeCallVariantGasCallEIP2929 oldCalculator s stack memorySize =
     (if AddressInAccessList (StateDB s) (Bytes20 item) then oldCalculator s stack memorySize
      else if Gas (Contract s) < coldCost
        then (Return (0, Some ErrOutOfGas), onStateDB (AddAddressToAccessList (Bytes20 item)) s)
      else
        (case oldCalculator
                ((onStateDB (AddAddressToAccessList (Bytes20 item)) s)
                   \<lparr>Contract := (Contract s)\<lparr>Gas := Gas (Contract s) - coldCost\<rparr>\<rparr>)
                stack memorySize of
           (Return (gas, None), s3) \<Rightarrow>
             (Return (gas + coldCost, None),
              s3\<lparr>Contract := (Contract s3)\<lparr>Gas := Gas (Contract s3) + coldCost\<rparr>\<rparr>)
         | (Return (gas, Some err), s3) \<Rightarrow> (Return (gas, Some err), s3)
         | (Panic m, s3) \<Rightarrow> (Panic m, s3)))"
  unfolding makeCallVariantGasCallEIP2929_def
  by (auto simp: Back_Suc0[OF a] Let_def UseGas_def onStateDB_def
      split: prod.splits outcome.splits option.splits)

lemmas example_defs =
  example_ctx_def example_db_def

lemmas constant_defs =
  SstoreSentryGasEIP2200_def SstoreSetGasEIP2200_def SstoreResetGasEIP2200_def
  SstoreClearsScheduleRefundEIP2200_def SstoreClearsScheduleRefundEIP3529_def
  ColdAccountAccessCostEIP2929_def ColdSloadCostEIP2929_def WarmStorageReadCostEIP2929_def
  coldCost_def copyGasPerByte_def MemoryGas_def QuadCoeffDiv_def

lemmas statedb_defs =
  GetState_def GetCommittedState_def AddressInAccessList_def SlotInAccessList_def
  AddAddressToAccessList_def AddSlotToAccessList_def AddRefund_def SubRefund_def
  onStateDB_def

lemmas stack_defs = Back_def Peek_def Pop_def Uint64_def Bytes20_def Bytes32_def

subsection \<open>SSTORE\<close>

text \<open>
  C1 (as amended). For every configuration that passes the sentry check, has the two stack
  operands and in which the contract's own address is warm, the SSTORE gas function returns
  without error the charge of the table's row for (original, current, value), plus the cold
  surcharge when the slot is cold, whichever the row; it then marks the slot warm; and it
  makes exactly the refund calls of that row. The rows: a no-op costs the warm read; a fresh
  slot the set cost; a write to an unchanged non-zero slot the reset cost minus the cold
  component, with the clearing refund added when the value is zero; a dirty slot the warm
  read, with the clearing refund subtracted (original non-zero, current zero) or added
  (original non-zero, current non-zero, value zero) and, when the value is the original one,
  the reset refund added.
\<close>

theorem sstore_classification:
  assumes sentry: "SstoreSentryGasEIP2200 < Gas (Contract s)"
    and y: "Back stack 1 = Some val"
    and x: "Peek stack = Some key"
    and warm: "AddressInAccessList (StateDB s) (Address (Contract s))"
  shows "makeGasSStoreFunc clearingRefund s stack memorySize =
     (let a = Address (Contract s);
          cold = (\<not> snd (SlotInAccessList (StateDB s) a key));
          row = sstore_table clearingRefund (GetCommittedState (StateDB s) a key)
                  (GetState (StateDB s) a key) val
      in (Return ((if cold then ColdSloadCostEIP2929 else 0) + fst row, None),
          onStateDB (refunds (snd row))
            (if cold then onStateDB (AddSlotToAccessList a key) s else s)))"
proof -
  have addr: "fst (SlotInAccessList (StateDB s) (Address (Contract s)) key)"
    using warm by (simp add: fst_SlotInAccessList)
  have nle: "\<not> Gas (Contract s) \<le> SstoreSentryGasEIP2200"
    using sentry by simp
  show ?thesis
    unfolding makeGasSStoreFunc_def sstore_table_def
    by (simp add: nle x Back_Suc0[OF y] addr Let_def Bytes32_def Contract_onStateDB
        StateDB_onStateDB committed_AddSlot refunds_Nil refunds_Add refunds_Sub refunds_append)
qed

text \<open>Witness: a fresh slot (original, current = 0, value 5) that is cold costs 2100 + 20000.\<close>

theorem sstore_classification_witness:
  "SstoreSentryGasEIP2200 < Gas (Contract example_ctx)
   \<and> Back [5, 7] 1 = Some 5 \<and> Peek [5, 7] = Some 7
   \<and> AddressInAccessList (StateDB example_ctx) (Address (Contract example_ctx))
   \<and> fst (makeGasSStoreFunc SstoreClearsScheduleRefundEIP2200 example_ctx [5, 7] 0)
       = Return (22100, None)"
proof -
  have h1: "SstoreSentryGasEIP2200 < Gas (Contract example_ctx)"
    by (simp add: example_defs constant_defs)
  have h2: "Back [5, 7] 1 = Some 5" and h3: "Peek [5, 7] = Some 7"
    by (simp_all add: stack_defs)
  have h4: "AddressInAccessList (StateDB example_ctx) (Address (Contract example_ctx))"
    by (simp add: example_defs statedb_defs)
  show ?thesis
    using sstore_classification[OF h1 h2 h3 h4, of SstoreClearsScheduleRefundEIP2200 0] h1 h2 h3 h4
    by (simp add: sstore_table_def refunds_def example_defs statedb_defs constant_defs)
qed

text \<open>
  The claim as stated fails twice. With the slot cold, a fresh-slot write is charged the set
  cost plus the cold surcharge, not the set cost. And when neither the slot nor the contract's
  address is warm, a no-op write is charged nothing: the function panics.
\<close>

theorem sstore_classification_counterexample:
  "fst (makeGasSStoreFunc SstoreClearsScheduleRefundEIP2200 example_ctx [5, 7] 0)
     \<noteq> Return (SstoreSetGasEIP2200, None)
   \<and> fst (makeGasSStoreFunc SstoreClearsScheduleRefundEIP2200 cold_ctx [0, 7] 0)
       = Panic impossible_case"
  by (simp add: makeGasSStoreFunc_def example_defs cold_ctx_def statedb_defs stack_defs constant_defs)

text \<open>
  C5. When the contract's remaining gas is at most the reentrancy-sentry threshold, the SSTORE
  gas function fails at once with the sentry error: the result is the same for every stack
  (the empty one included, so no operand is read) and every state database, and the context
  is returned as it was, so no slot is marked warm and no refund call is made.
\<close>

theorem sstore_sentry_first:
  "Gas (Contract s) \<le> SstoreSentryGasEIP2200 \<Longrightarrow>
     makeGasSStoreFunc clearingRefund s stack memorySize = (Return (0, Some sentry_error), s)"
  by (simp add: makeGasSStoreFunc_def)

text \<open>Witness: with 100 gas left and an empty stack the result is the sentry error and the
  context is unchanged.\<close>

theorem sstore_sentry_first_witness:
  "Gas (Contract poor_ctx) \<le> SstoreSentryGasEIP2200
   \<and> makeGasSStoreFunc SstoreClearsScheduleRefundEIP2200 poor_ctx [] 0
       = (Return (0, Some sentry_error), poor_ctx)"
proof -
  have h: "Gas (Contract poor_ctx) \<le> SstoreSentryGasEIP2200"
    by (simp add: example_defs poor_ctx_def constant_defs)
  show ?thesis
    using sstore_sentry_first[OF h, of SstoreClearsScheduleRefundEIP2200 "[]" 0] h by simp
qed

text \<open>
  C10. When the sentry check is passed, the two operands are on the stack and the slot is not
  in the access list, the SSTORE gas function returns if the contract's own address is in the
  access list and panics (with the ``impossible case'' message) if it is not.
\<close>

theorem sstore_panics_on_cold_address:
  assumes sentry: "SstoreSentryGasEIP2200 < Gas (Contract s)"
    and y: "Back stack 1 = Some val"
    and x: "Peek stack = Some key"
    and cold: "\<not> snd (SlotInAccessList (StateDB s) (Address (Contract s)) key)"
  shows "if AddressInAccessList (StateDB s) (Address (Contract s))
         then (\<exists>r. fst (makeGasSStoreFunc clearingRefund s stack memorySize) = Return r)
         else fst (makeGasSStoreFunc clearingRefund s stack memorySize) = Panic impossible_case"
proof -
  have nle: "\<not> Gas (Contract s) \<le> SstoreSentryGasEIP2200"
    using sentry by simp
  show ?thesis
    unfolding makeGasSStoreFunc_def
    by (simp add: nle x Back_Suc0[OF y] fst_SlotInAccessList cold Let_def Bytes32_def)
qed

text \<open>Witness: the contract at the cold address 2 writes 5 to its cold slot 7.\<close>

theorem sstore_panics_on_cold_address_witness:
  "SstoreSentryGasEIP2200 < Gas (Contract cold_ctx)
   \<and> Back [5, 7] 1 = Some 5 \<and> Peek [5, 7] = Some 7
   \<and> \<not> snd (SlotInAccessList (StateDB cold_ctx) (Address (Contract cold_ctx)) 7)
   \<and> \<not> AddressInAccessList (StateDB cold_ctx) (Address (Contract cold_ctx))
   \<and> fst (makeGasSStoreFunc SstoreClearsScheduleRefundEIP3529 cold_ctx [5, 7] 0)
       = Panic impossible_case"
proof -
  have h1: "SstoreSentryGasEIP2200 < Gas (Contract cold_ctx)"
    by (simp add: example_defs cold_ctx_def constant_defs)
  have h2: "Back [5, 7] 1 = Some 5" and h3: "Peek [5, 7] = Some 7"
    by (simp_all add: stack_defs)
  have h4: "\<not> snd (SlotInAccessList (StateDB cold_ctx) (Address (Contract cold_ctx)) 7)"
    by (simp add: example_defs cold_ctx_def statedb_defs)
  have h5: "\<not> AddressInAccessList (StateDB cold_ctx) (Address (Contract cold_ctx))"
    by (simp add: example_defs cold_ctx_def statedb_defs)
  show ?thesis
    using sstore_panics_on_cold_address[OF h1 h2 h3 h4, of SstoreClearsScheduleRefundEIP3529 0]
      h1 h2 h3 h4 h5
    by simp
qed

subsection \<open>The call variants\<close>

text \<open>
  C3 (as amended). For a call-variant gas computation whose callee address is on the stack:
  if the callee is warm, the result is the prior cost function's, unchanged. If it is cold,
  the address is marked warm; when the contract has less gas than the cold surcharge the
  function returns the out-of-gas error without deducting anything and without calling the
  prior function; otherwise it deducts the surcharge, calls the prior function, and, when
  that returns without error, adds the surcharge back to the contract's gas and to the gas
  returned. When the prior function fails, its result is returned as it is and the surcharge
  stays deducted.
\<close>

theorem call_variant_gas:
  assumes a: "Back stack 1 = Some item"
  shows "makeCallVariantGasCallEIP2929 oldCalculator s stack memorySize =
     (if AddressInAccessList (StateDB s) (Bytes20 item) then oldCalculator s stack memorySize
      else if Gas (Contract s) < coldCost
        then (Return (0, Some ErrOutOfGas), onStateDB (AddAddressToAccessList (Bytes20 item)) s)
      else
        (case oldCalculator
                ((onStateDB (AddAddressToAccessList (Bytes20 item)) s)
                   \<lparr>Contract := (Contract s)\<lparr>Gas := Gas (Contract s) - coldCost\<rparr>\<rparr>)
                stack memorySize of
           (Return (gas, None), s3) \<Rightarrow>
             (Return (gas + coldCost, None),
              s3\<lparr>Contract := (Contract s3)\<lparr>Gas := Gas (Contract s3) + coldCost\<rparr>\<rparr>)
         | (Return (gas, Some err), s3) \<Rightarrow> (Return (gas, Some err), s3)
         | (Panic m, s3) \<Rightarrow> (Panic m, s3)))"
  by (rule makeCallVariantGasCallEIP2929_cases[OF a])

text \<open>Witness: a call to the cold address 9 with enough gas, the prior function charging 7:
  2507 is returned and the contract's gas is what it was.\<close>

theorem call_variant_gas_witness:
  "Back [0, 9, 0] 1 = Some 9
   \<and> fst (makeCallVariantGasCallEIP2929 charges_seven example_ctx [0, 9, 0] 0)
       = Return (2507, None)
   \<and> Gas (Contract (snd (makeCallVariantGasCallEIP2929 charges_seven example_ctx [0, 9, 0] 0)))
       = Gas (Contract example_ctx)
   \<and> AddressInAccessList
        (StateDB (snd (makeCallVariantGasCallEIP2929 charges_seven example_ctx [0, 9, 0] 0))) 9"
proof -
  have h: "Back [0, 9, 0] 1 = Some 9"
    by (simp add: stack_defs)
  show ?thesis
    using call_variant_gas[OF h, of charges_seven example_ctx 0] h
    by (simp add: example_defs charges_seven_def statedb_defs constant_defs stack_defs)
qed

text \<open>
  The claim as stated fails on the two error paths. With 100 gas left and the callee cold,
  nothing is deducted, the prior function's 7 is not in the result and no surcharge is added
  to it: the result is the out-of-gas error. And when the prior function fails, the surcharge
  is not added back: the contract is left with 100000 - 2500 gas.
\<close>

theorem call_variant_gas_counterexample:
  "makeCallVariantGasCallEIP2929 charges_seven poor_ctx [0, 9, 0] 0
     = (Return (0, Some ErrOutOfGas), onStateDB (AddAddressToAccessList 9) poor_ctx)
   \<and> Gas (Contract (snd (makeCallVariantGasCallEIP2929 always_fails example_ctx [0, 9, 0] 0)))
       = 97500"
  by (simp add: makeCallVariantGasCallEIP2929_def UseGas_def example_defs poor_ctx_def
      charges_seven_def always_fails_def statedb_defs
      stack_defs constant_defs)

subsection \<open>MCOPY gas\<close>

text \<open>
  What the MCOPY gas function computes from the low 64 bits \<open>len\<close>, \<open>src\<close> and \<open>dst\<close> of its
  three operands: the overflow error when \<open>dst + len\<close> or \<open>src + len\<close> does not fit 64 bits,
  when the memory cost function refuses the size, or when \<open>3 * len\<close> or the final sum does not
  fit; otherwise the value the memory cost function returns for \<open>max (dst + len) (src + len)\<close>
  plus \<open>3 * len\<close>, as natural numbers, with no error. The four steps of the function itself
  are guarded; the reading of the operands and the value of the memory cost function are not.
\<close>

lemma gasMCopy_charge:
  assumes v0: "Back stack 0 = Some v0"
    and v1: "Back stack 1 = Some v1"
    and v2: "Back stack 2 = Some v2"
  shows "fst (gasMCopy s stack memorySize) =
     (let len = Uint64 v0; src = Uint64 v1; dst = Uint64 v2
      in if 2 ^ 64 \<le> unat dst + unat len \<or> 2 ^ 64 \<le> unat src + unat len
         then Return (0, Some ErrGasUintOverflow)
         else (case fst (memoryGasCost (Mem s) (max (dst + len) (src + len))) of
                 (memGas, Some e) \<Rightarrow> Return (0, Some ErrGasUintOverflow)
               | (memGas, None) \<Rightarrow>
                   if 2 ^ 64 \<le> 3 * unat len \<or> 2 ^ 64 \<le> unat memGas + 3 * unat len
                   then Return (0, Some ErrGasUintOverflow)
                   else Return (of_nat (unat memGas + 3 * unat len), None)))"
proof -
  define len where "len = Uint64 v0"
  define src where "src = Uint64 v1"
  define dst where "dst = Uint64 v2"
  define mg where "mg = memoryGasCost (Mem s) (max (dst + len) (src + len))"
  have unfolded: "fst (gasMCopy s stack memorySize) =
      (if 2 ^ 64 \<le> unat dst + unat len \<or> 2 ^ 64 \<le> unat src + unat len
       then Return (0, Some ErrGasUintOverflow)
       else (case snd (fst mg) of
               Some e \<Rightarrow> Return (0, Some e)
             | None \<Rightarrow>
                 if 2 ^ 64 \<le> unat copyGasPerByte * unat len
                 then Return (0, Some ErrGasUintOverflow)
                 else if 2 ^ 64 \<le> unat (fst (fst mg)) + unat (copyGasPerByte * len)
                 then Return (0, Some ErrGasUintOverflow)
                 else Return (fst (fst mg) + copyGasPerByte * len, None)))"
    unfolding gasMCopy_def
    by (simp add: v0[simplified] Back_Suc0[OF v1] v2 Let_def if_less_max SafeAdd_def SafeMul_def
        len_def src_def dst_def mg_def split: option.splits)
  have three: "unat copyGasPerByte = 3" "copyGasPerByte = 3"
    by (simp_all add: copyGasPerByte_def)
  have mul: "unat (3 * len) = 3 * unat len" if "\<not> 2 ^ 64 \<le> 3 * unat len"
    using that by (simp add: unat_word_ariths)
  have add: "g + 3 * len = of_nat (unat g + 3 * unat len)"
    if "\<not> 2 ^ 64 \<le> 3 * unat len" for g :: uint64
    using mul[OF that] by (simp add: word_unat_eq_iff unat_word_ariths unat_of_nat)
  have err: "fst mg = (g, Some e) \<Longrightarrow> e = ErrGasUintOverflow" for g e
    using memoryGasCost_error[of "Mem s" "max (dst + len) (src + len)" e]
    by (simp add: mg_def)
  show ?thesis
  proof (cases "fst mg")
    case (Pair g eo)
    show ?thesis
    proof (cases eo)
      case None
      then have "snd (fst mg) = None" "fst (fst mg) = g" "fst mg = (g, None)"
        using Pair by simp_all
      then show ?thesis
        unfolding unfolded Let_def len_def[symmetric] src_def[symmetric] dst_def[symmetric]
          mg_def[symmetric]
        using mul add[of g] by (simp add: three)
    next
      case (Some e)
      then have "snd (fst mg) = Some ErrGasUintOverflow" "fst mg = (g, Some ErrGasUintOverflow)"
        using Pair err[of g e] by simp_all
      then show ?thesis
        unfolding unfolded Let_def len_def[symmetric] src_def[symmetric] dst_def[symmetric]
          mg_def[symmetric]
        by simp
    qed
  qed
qed

subsection \<open>Activators\<close>

lemma run_field_write:
  assumes "is_field_write c"
  shows "run_stmt c jt =
    (case entries jt (target c) of
       None \<Rightarrow> Panic nil_dereference
     | Some p \<Rightarrow> Return (jt\<lparr>heap := (heap jt)(p := write_field c (heap jt p))\<rparr>))"
  using assms by (cases c) (auto split: option.splits)

lemma run_field_writes:
  assumes "list_all is_field_write cs"
  shows "run_stmts cs jt =
    (if list_all (\<lambda>c. entries jt (target c) \<noteq> None) cs
     then Return (jt\<lparr>heap := (\<lambda>p. fold write_field (writes_to jt p cs) (heap jt p))\<rparr>)
     else Panic nil_dereference)"
  using assms
proof (induction cs arbitrary: jt)
  case Nil
  then show ?case by (simp add: writes_to_def)
next
  case (Cons c cs)
  then have c: "is_field_write c" and cs: "list_all is_field_write cs"
    by simp_all
  show ?case
  proof (cases "entries jt (target c)")
    case None
    then show ?thesis by (simp add: run_field_write[OF c])
  next
    case (Some p)
    define jt' where "jt' = jt\<lparr>heap := (heap jt)(p := write_field c (heap jt p))\<rparr>"
    have e: "entries jt' = entries jt"
      by (simp add: jt'_def)
    have w: "writes_to jt' q cs = writes_to jt q cs" for q
      by (simp add: writes_to_def e)
    have h: "jt'\<lparr>heap := (\<lambda>q. fold write_field (writes_to jt q cs) (heap jt' q))\<rparr>
           = jt\<lparr>heap := (\<lambda>q. fold write_field (writes_to jt q (c # cs)) (heap jt q))\<rparr>"
      by (auto simp: fun_eq_iff writes_to_def jt'_def Some)
    have step: "run_stmts (c # cs) jt = run_stmts cs jt'"
      by (simp add: run_field_write[OF c] Some jt'_def)
    have rest: "run_stmts cs jt' = (if list_all (\<lambda>c. entries jt (target c) \<noteq> None) cs
       then Return (jt'\<lparr>heap := (\<lambda>q. fold write_field (writes_to jt q cs) (heap jt' q))\<rparr>)
       else Panic nil_dereference)"
      by (simp add: Cons.IH[OF cs] e w)
    show ?thesis
      unfolding step rest h by (simp add: Some)
  qed
qed

text \<open>A sequence of field writes to one operation can be summarised by the last value it
  gives each field, so running it twice is running it once.\<close>

lemma fold_write_field_form:
  "\<exists>cg dg. \<forall>d. fold write_field cs d =
      d\<lparr>constantGas := (case cg of None \<Rightarrow> constantGas d | Some g \<Rightarrow> g),
        dynamicGas := (case dg of None \<Rightarrow> dynamicGas d | Some f \<Rightarrow> f)\<rparr>"
proof (induction cs)
  case Nil
  have "\<forall>d. fold write_field [] d =
      d\<lparr>constantGas := (case None of None \<Rightarrow> constantGas d | Some g \<Rightarrow> g),
        dynamicGas := (case None of None \<Rightarrow> dynamicGas d | Some f \<Rightarrow> f)\<rparr>"
    by simp
  then show ?case by blast
next
  case (Cons c cs)
  then obtain cg dg where IH: "\<And>d. fold write_field cs d =
      d\<lparr>constantGas := (case cg of None \<Rightarrow> constantGas d | Some g \<Rightarrow> g),
        dynamicGas := (case dg of None \<Rightarrow> dynamicGas d | Some f \<Rightarrow> f)\<rparr>"
    by blast
  show ?case
  proof (cases c)
    case (SetConstantGas opc g)
    have "\<forall>d. fold write_field (c # cs) d =
      d\<lparr>constantGas := (case Some (case cg of None \<Rightarrow> g | Some g' \<Rightarrow> g') of
                           None \<Rightarrow> constantGas d | Some g \<Rightarrow> g),
        dynamicGas := (case dg of None \<Rightarrow> dynamicGas d | Some f \<Rightarrow> f)\<rparr>"
      by (simp add: SetConstantGas IH split: option.splits)
    then show ?thesis by blast
  next
    case (SetDynamicGas opc f)
    have "\<forall>d. fold write_field (c # cs) d =
      d\<lparr>constantGas := (case cg of None \<Rightarrow> constantGas d | Some g \<Rightarrow> g),
        dynamicGas := (case Some (case dg of None \<Rightarrow> Some f | Some f' \<Rightarrow> f') of
                          None \<Rightarrow> dynamicGas d | Some f \<Rightarrow> f)\<rparr>"
      by (simp add: SetDynamicGas IH split: option.splits)
    then show ?thesis by blast
  next
    case (SetOperation opc d')
    have "\<forall>d. fold write_field (c # cs) d =
      d\<lparr>constantGas := (case cg of None \<Rightarrow> constantGas d | Some g \<Rightarrow> g),
        dynamicGas := (case dg of None \<Rightarrow> dynamicGas d | Some f \<Rightarrow> f)\<rparr>"
      by (simp add: SetOperation IH)
    then show ?thesis by blast
  qed
qed

lemma fold_write_field_idem:
  "fold write_field cs (fold write_field cs d) = fold write_field cs d"
proof -
  obtain cg dg where F: "\<And>d. fold write_field cs d =
      d\<lparr>constantGas := (case cg of None \<Rightarrow> constantGas d | Some g \<Rightarrow> g),
        dynamicGas := (case dg of None \<Rightarrow> dynamicGas d | Some f \<Rightarrow> f)\<rparr>"
    using fold_write_field_form[of cs] by blast
  show ?thesis
    by (subst (1 2 3) F) (simp split: option.splits)
qed

lemma field_writes_twice:
  assumes fw: "list_all is_field_write cs"
    and once: "run_stmts cs jt = Return jt'"
  shows "run_stmts cs jt' = Return jt'"
proof -
  have ok: "list_all (\<lambda>c. entries jt (target c) \<noteq> None) cs"
    using once by (simp add: run_field_writes[OF fw] split: if_splits)
  have jt': "jt' = jt\<lparr>heap := (\<lambda>p. fold write_field (writes_to jt p cs) (heap jt p))\<rparr>"
    using once ok by (simp add: run_field_writes[OF fw])
  have e: "entries jt' = entries jt"
    by (simp add: jt')
  have w: "writes_to jt' p cs = writes_to jt p cs" for p
    by (simp add: writes_to_def e)
  have "run_stmts cs jt' =
      Return (jt'\<lparr>heap := (\<lambda>p. fold write_field (writes_to jt p cs) (heap jt' p))\<rparr>)"
    using ok by (simp add: run_field_writes[OF fw] e w)
  also have "\<dots> = Return jt'"
    by (simp add: jt' fold_write_field_idem)
  finally show ?thesis .
qed


lemma run_stmts_append:
  "run_stmts (xs @ ys) jt =
     (case run_stmts xs jt of Panic m \<Rightarrow> Panic m | Return jt' \<Rightarrow> run_stmts ys jt')"
  by (induction xs arbitrary: jt) (auto split: outcome.splits)

lemma writes_then_new_twice:
  assumes fw: "list_all is_field_write ws"
    and other: "opc \<notin> target ` set ws"
    and alloc: "allocated jt"
    and once: "run_stmts (ws @ [SetOperation opc d]) jt = Return jt2"
  shows "\<exists>jt3. run_stmts (ws @ [SetOperation opc d]) jt2 = Return jt3
           \<and> descriptor jt3 = descriptor jt2"
proof -
  define n where "n = next_ref jt"
  define H where "H = (\<lambda>p. fold write_field (writes_to jt p ws) (heap jt p))"
  have ok: "list_all (\<lambda>c. entries jt (target c) \<noteq> None) ws"
    using once by (simp add: run_stmts_append run_field_writes[OF fw] split: if_splits)
  have jt2: "jt2 = jt\<lparr>entries := (entries jt)(opc := Some n), heap := H(n := d),
                       next_ref := Suc n\<rparr>"
    using once ok by (simp add: run_stmts_append run_field_writes[OF fw] n_def H_def)
  have below: "entries jt o' = Some p \<Longrightarrow> p < n" for o' p
    using alloc unfolding allocated_def n_def
    by (metis option.simps(5))
  have same: "entries jt2 (target c) = entries jt (target c)" if "c \<in> set ws" for c
    using that other by (auto simp: jt2)
  have ok2: "list_all (\<lambda>c. entries jt2 (target c) \<noteq> None) ws"
    using ok same by (simp add: list_all_iff)
  have w: "writes_to jt2 p ws = writes_to jt p ws" for p
    unfolding writes_to_def using same by (intro filter_cong) simp_all
  have none: "writes_to jt n ws = []"
    unfolding writes_to_def using below by (auto simp: filter_empty_conv)
  have heap2: "(\<lambda>p. fold write_field (writes_to jt2 p ws) (heap jt2 p)) = heap jt2"
  proof
    fix p
    show "fold write_field (writes_to jt2 p ws) (heap jt2 p) = heap jt2 p"
    proof (cases "p = n")
      case True
      then show ?thesis by (simp add: w none)
    next
      case False
      then show ?thesis by (simp add: w) (simp add: jt2 H_def fold_write_field_idem)
    qed
  qed
  have again: "run_stmts ws jt2 = Return jt2"
    using ok2 by (simp add: run_field_writes[OF fw] heap2)
  define jt3 where "jt3 = jt2\<lparr>entries := (entries jt2)(opc := Some (Suc n)),
                               heap := (heap jt2)(Suc n := d), next_ref := Suc (Suc n)\<rparr>"
  have run: "run_stmts (ws @ [SetOperation opc d]) jt2 = Return jt3"
    by (simp add: run_stmts_append again jt3_def) (simp add: jt2)
  have "descriptor jt3 o' = descriptor jt2 o'" for o'
  proof (cases "o' = opc")
    case True
    then show ?thesis by (simp add: descriptor_def jt3_def jt2)
  next
    case False
    show ?thesis
    proof (cases "entries jt o'")
      case None
      then show ?thesis using False by (simp add: descriptor_def jt3_def jt2)
    next
      case (Some p)
      then have "p \<noteq> Suc n" using below[OF Some] by simp
      then show ?thesis using False Some by (simp add: descriptor_def jt3_def jt2)
    qed
  qed
  then have "descriptor jt3 = descriptor jt2"
    by (simp add: fun_eq_iff)
  with run show ?thesis by blast
qed

lemma activator_cases:
  assumes "activators eipName = Some act"
  shows "act \<in> {enable5656, enable3855, enable3529, enable3198, enable2929, enable2200,
                 enable1884, enable1344}"
  using assms unfolding activators_def by (auto split: if_splits)

lemmas opcode_defs =
  BALANCE_def EXTCODESIZE_def EXTCODECOPY_def EXTCODEHASH_def CHAINID_def SELFBALANCE_def
  BASEFEE_def SLOAD_def SSTORE_def MCOPY_def PUSH0_def CALL_def CALLCODE_def DELEGATECALL_def
  STATICCALL_def SELFDESTRUCT_def

lemma unat_byte_less: "unat (opc :: byte) < 256"
  using unsigned_less[of opc, where ?'a = nat] by simp

lemma allocated_example_table: "allocated example_table"
  by (simp add: allocated_def example_table_def unat_byte_less)

text \<open>
  C8. Every registered activator is idempotent: applied to a table (whose pointers refer to
  allocated operations) on which it returns, it returns again on the result, and the
  operation descriptor of every opcode byte is the same after the second application as
  after the first, field for field. This holds also when entries of the table share an
  operation, and for the activators that install a new operation, whose second application
  installs an equal one.
\<close>

theorem activators_idempotent:
  assumes reg: "activators eipName = Some act"
    and alloc: "allocated jt"
    and once: "act jt = Return jt'"
  shows "\<exists>jt''. act jt' = Return jt'' \<and> descriptor jt'' = descriptor jt'"
proof -
  have new: ?thesis
    if "act = run_stmts (ws @ [SetOperation opc d])" "list_all is_field_write ws"
       "opc \<notin> target ` set ws" for ws opc d
    using writes_then_new_twice[OF that(2,3) alloc, of d jt'] once unfolding that(1) by simp
  have writes: ?thesis if "act = run_stmts ws" "list_all is_field_write ws" for ws
    using field_writes_twice[OF that(2), of jt jt'] once unfolding that(1) by simp
  consider "act = enable5656" | "act = enable3855" | "act = enable3529" | "act = enable3198"
    | "act = enable2929" | "act = enable2200" | "act = enable1884" | "act = enable1344"
    using activator_cases[OF reg] by auto
  then show ?thesis
  proof cases
    case 1
    show ?thesis by (rule new[of "[]"]) (simp_all add: 1 enable5656_def)
  next
    case 2
    show ?thesis by (rule new[of "[]"]) (simp_all add: 2 enable3855_def)
  next
    case 3
    show ?thesis by (rule writes, simp add: 3 enable3529_def, simp)
  next
    case 4
    show ?thesis by (rule new[of "[]"]) (simp_all add: 4 enable3198_def)
  next
    case 5
    show ?thesis by (rule writes, simp add: 5 enable2929_def, simp)
  next
    case 6
    show ?thesis by (rule writes, simp add: 6 enable2200_def, simp)
  next
    case 7
    show ?thesis
      by (rule new[of "[SetConstantGas SLOAD SloadGasEIP1884,
                        SetConstantGas BALANCE BalanceGasEIP1884,
                        SetConstantGas EXTCODEHASH ExtcodeHashGasEIP1884]" SELFBALANCE],
          simp add: 7 enable1884_def, simp,
          simp add: SELFBALANCE_def SLOAD_def BALANCE_def EXTCODEHASH_def)
  next
    case 8
    show ?thesis by (rule new[of "[]"]) (simp_all add: 8 enable1344_def)
  qed
qed

text \<open>Witness: the activator of ``ethereum\_1884'', which writes three fields and installs
  SELFBALANCE, on the example table.\<close>

theorem activators_idempotent_witness:
  "activators ''ethereum_1884'' = Some enable1884 \<and> allocated example_table
   \<and> (\<exists>jt' jt''. enable1884 example_table = Return jt' \<and> enable1884 jt' = Return jt''
         \<and> descriptor jt'' = descriptor jt'
         \<and> descriptor jt'' SELFBALANCE =
             Some \<lparr>execute = Some opSelfBalance_ref, constantGas = 5, dynamicGas = None,
                   minStack = 0, maxStack = 1023\<rparr>)"
proof -
  have reg: "activators ''ethereum_1884'' = Some enable1884"
    by (simp add: activators_def)
  obtain jt' where once: "enable1884 example_table = Return jt'"
    and new: "descriptor jt' SELFBALANCE =
             Some \<lparr>execute = Some opSelfBalance_ref, constantGas = 5, dynamicGas = None,
                   minStack = 0, maxStack = 1023\<rparr>"
    by (simp add: enable1884_def example_table_def descriptor_def GasFastStep_def
        minStack_of_def maxStack_of_def StackLimit_def)
  from activators_idempotent[OF reg allocated_example_table once]
  obtain jt'' where "enable1884 jt' = Return jt''" "descriptor jt'' = descriptor jt'"
    by blast
  with reg allocated_example_table once new show ?thesis
    by auto
qed

subsection \<open>SLOAD and the access list\<close>

lemma warm_slots_AddSlot: "warm_slots (AddSlotToAccessList a k db) = insert (a, k) (warm_slots db)"
  by (auto simp: warm_slots_def AddSlotToAccessList_def SlotInAccessList_def
      split: option.splits if_splits)

lemma warm_slots_AddAddress: "warm_slots (AddAddressToAccessList a db) = warm_slots db"
  by (auto simp: warm_slots_def AddAddressToAccessList_def SlotInAccessList_def
      split: option.splits if_splits)

lemma warm_slots_AddRefund: "warm_slots (AddRefund g db) = warm_slots db"
  by (simp add: warm_slots_def AddRefund_def SlotInAccessList_def)

lemma warm_slots_SubRefund: "warm_slots (SubRefund g db) = warm_slots db"
  by (simp add: warm_slots_def SubRefund_def SlotInAccessList_def)

lemmas warm_slots_simps =
  warm_slots_AddSlot warm_slots_AddAddress warm_slots_AddRefund warm_slots_SubRefund
  StateDB_onStateDB

lemma keeps_warm_sstore: "keeps_warm (makeGasSStoreFunc clearingRefund)"
  unfolding keeps_warm_def makeGasSStoreFunc_def
  by (auto simp: Let_def warm_slots_simps split: option.splits)

lemma keeps_warm_sload: "keeps_warm gasSLoadEIP2929"
  unfolding keeps_warm_def gasSLoadEIP2929_def
  by (auto simp: Let_def warm_slots_simps split: option.splits)

lemma keeps_warm_account: "keeps_warm gasEip2929AccountCheck"
  unfolding keeps_warm_def gasEip2929AccountCheck_def
  by (auto simp: Let_def warm_slots_simps split: option.splits)

lemma keeps_warm_selfdestruct: "keeps_warm (makeSelfdestructGasFn refundsEnabled)"
  unfolding keeps_warm_def makeSelfdestructGasFn_def
  by (auto simp: Let_def warm_slots_simps split: option.splits)

lemma keeps_warm_mcopy: "keeps_warm gasMCopy"
  unfolding keeps_warm_def gasMCopy_def
  by (auto simp: Let_def split: option.splits)

lemma keeps_warm_create: "keeps_warm gasCreateEIP3860"
  unfolding keeps_warm_def gasCreateEIP3860_def
  by (auto simp: Let_def split: option.splits)

lemma keeps_warm_extcodecopy:
  assumes "keeps_warm old"
  shows "keeps_warm (gasExtCodeCopyEIP2929 old)"
  unfolding keeps_warm_def
proof (intro allI)
  fix s stack memorySize
  have "warm_slots (StateDB s) \<subseteq> warm_slots (StateDB (snd (old s stack memorySize)))"
    using assms by (simp add: keeps_warm_def)
  then show "warm_slots (StateDB s)
      \<subseteq> warm_slots (StateDB (snd (gasExtCodeCopyEIP2929 old s stack memorySize)))"
    unfolding gasExtCodeCopyEIP2929_def
    by (auto simp: Let_def warm_slots_simps split: option.splits prod.splits outcome.splits)
qed

lemma keeps_warm_call:
  assumes "keeps_warm old"
  shows "keeps_warm (makeCallVariantGasCallEIP2929 old)"
  unfolding keeps_warm_def
proof (intro allI)
  fix s stack memorySize
  have old: "warm_slots (StateDB s') \<subseteq> warm_slots (StateDB (snd (old s' stack memorySize)))"
    for s'
    using assms by (simp add: keeps_warm_def)
  show "warm_slots (StateDB s)
      \<subseteq> warm_slots (StateDB (snd (makeCallVariantGasCallEIP2929 old s stack memorySize)))"
  proof (cases "Back stack 1")
    case None
    then show ?thesis
      by (simp add: makeCallVariantGasCallEIP2929_def)
  next
    case (Some item)
    show ?thesis
      unfolding makeCallVariantGasCallEIP2929_cases[OF Some]
      using old[of s]
        old[of "(onStateDB (AddAddressToAccessList (Bytes20 item)) s)
                  \<lparr>Contract := (Contract s)\<lparr>Gas := Gas (Contract s) - coldCost\<rparr>\<rparr>"]
      by (auto simp: warm_slots_simps split: prod.splits outcome.splits option.splits)
  qed
qed

lemma is_gas_function_keeps_warm:
  assumes prior: "\<And>old. prior old \<Longrightarrow> keeps_warm old"
    and g: "is_gas_function prior g"
  shows "keeps_warm g"
  using g unfolding is_gas_function_def
  by (auto simp: keeps_warm_sstore keeps_warm_sload keeps_warm_account keeps_warm_selfdestruct
      keeps_warm_mcopy keeps_warm_create gasCreate2EIP3860_def
      intro: keeps_warm_extcodecopy keeps_warm_call prior)

lemma later_warm:
  assumes prior: "\<And>old. prior old \<Longrightarrow> keeps_warm old"
    and l: "later prior db db'"
  shows "warm_slots db \<subseteq> warm_slots db'"
  using l
proof (induction rule: later.induct)
  case now
  then show ?case by simp
next
  case (after db db1 g s stack memorySize)
  have "keeps_warm g"
    using is_gas_function_keeps_warm[OF prior after.hyps(2)] .
  then have "warm_slots (StateDB s) \<subseteq> warm_slots (StateDB (snd (g s stack memorySize)))"
    by (simp add: keeps_warm_def)
  with after show ?case by auto
qed


lemma enable2929_SLOAD:
  assumes run: "enable2929 jt = Return jt'"
    and own: "\<forall>opc. opc \<noteq> SLOAD \<longrightarrow> entries jt opc \<noteq> entries jt SLOAD"
  shows "\<exists>d. descriptor jt' SLOAD = Some d \<and> constantGas d = 0
            \<and> dynamicGas d = Some gasSLoadEIP2929_ref"
proof -
  define cs where "cs =
     [SetDynamicGas SSTORE gasSStoreEIP2929_ref,
      SetConstantGas SLOAD 0,
      SetDynamicGas SLOAD gasSLoadEIP2929_ref,
      SetConstantGas EXTCODECOPY WarmStorageReadCostEIP2929,
      SetDynamicGas EXTCODECOPY gasExtCodeCopyEIP2929_ref,
      SetConstantGas EXTCODESIZE WarmStorageReadCostEIP2929,
      SetDynamicGas EXTCODESIZE gasEip2929AccountCheck_ref,
      SetConstantGas EXTCODEHASH WarmStorageReadCostEIP2929,
      SetDynamicGas EXTCODEHASH gasEip2929AccountCheck_ref,
      SetConstantGas BALANCE WarmStorageReadCostEIP2929,
      SetDynamicGas BALANCE gasEip2929AccountCheck_ref,
      SetConstantGas CALL WarmStorageReadCostEIP2929,
      SetDynamicGas CALL gasCallEIP2929_ref,
      SetConstantGas CALLCODE WarmStorageReadCostEIP2929,
      SetDynamicGas CALLCODE gasCallCodeEIP2929_ref,
      SetConstantGas STATICCALL WarmStorageReadCostEIP2929,
      SetDynamicGas STATICCALL gasStaticCallEIP2929_ref,
      SetConstantGas DELEGATECALL WarmStorageReadCostEIP2929,
      SetDynamicGas DELEGATECALL gasDelegateCallEIP2929_ref,
      SetConstantGas SELFDESTRUCT SelfdestructGasEIP150,
      SetDynamicGas SELFDESTRUCT gasSelfdestructEIP2929_ref]"
  have fw: "list_all is_field_write cs"
    by (simp add: cs_def)
  have run': "run_stmts cs jt = Return jt'"
    using run by (simp add: enable2929_def cs_def)
  have ok: "list_all (\<lambda>c. entries jt (target c) \<noteq> None) cs"
    using run' by (simp add: run_field_writes[OF fw] split: if_splits)
  then obtain p where p: "entries jt SLOAD = Some p"
    by (auto simp: cs_def)
  have jt': "jt' = jt\<lparr>heap := (\<lambda>p. fold write_field (writes_to jt p cs) (heap jt p))\<rparr>"
    using run' ok by (simp add: run_field_writes[OF fw])
  have others: "entries jt opc \<noteq> Some p" if "opc \<noteq> SLOAD" for opc
    using own that p by auto
  have w: "writes_to jt p cs = [SetConstantGas SLOAD 0, SetDynamicGas SLOAD gasSLoadEIP2929_ref]"
    by (simp add: writes_to_def cs_def p[unfolded SLOAD_def] others opcode_defs)
  show ?thesis
    by (simp add: descriptor_def jt' p w)
qed

text \<open>
  C6. The SLOAD gas computation on a cold (address, slot) pair charges the cold-sload cost and
  adds the pair to the access list; a SLOAD gas computation on the same pair in any later
  state of the context, reached through any number of gas computations, charges the warm
  baseline and changes nothing; no gas function of the sources removes a warm pair (the
  prior cost functions wrapped for EXTCODECOPY and the call variants are not in the sources
  and are assumed not to); and after the access-list activator the SLOAD descriptor of a
  table in which SLOAD shares its operation with no other opcode has constant gas zero and
  this gas function as its dynamic gas.
\<close>

theorem sload_cold_then_warm:
  assumes prior: "\<forall>old. prior old \<longrightarrow> keeps_warm old"
    and key: "Peek stack = Some key"
    and cold: "\<not> snd (SlotInAccessList (StateDB s) (Address (Contract s)) (Bytes32 key))"
    and later: "later prior (StateDB (snd (gasSLoadEIP2929 s stack memorySize))) (StateDB s')"
    and same: "Address (Contract s') = Address (Contract s)" "Peek stack' = Some key"
    and table: "enable2929 jt = Return jt'"
      "\<forall>opc. opc \<noteq> SLOAD \<longrightarrow> entries jt opc \<noteq> entries jt SLOAD"
  shows "gasSLoadEIP2929 s stack memorySize =
           (Return (ColdSloadCostEIP2929, None),
            onStateDB (AddSlotToAccessList (Address (Contract s)) (Bytes32 key)) s)
     \<and> gasSLoadEIP2929 s' stack' memorySize' = (Return (WarmStorageReadCostEIP2929, None), s')
     \<and> (\<forall>g. is_gas_function prior g \<longrightarrow> keeps_warm g)
     \<and> (\<exists>d. descriptor jt' SLOAD = Some d \<and> constantGas d = 0
            \<and> dynamicGas d = Some gasSLoadEIP2929_ref)"
proof -
  have first: "gasSLoadEIP2929 s stack memorySize =
           (Return (ColdSloadCostEIP2929, None),
            onStateDB (AddSlotToAccessList (Address (Contract s)) (Bytes32 key)) s)"
    using key cold by (simp add: gasSLoadEIP2929_def)
  have p: "prior old \<Longrightarrow> keeps_warm old" for old
    using prior by simp
  have "(Address (Contract s), Bytes32 key)
          \<in> warm_slots (StateDB (snd (gasSLoadEIP2929 s stack memorySize)))"
    by (simp add: first warm_slots_simps)
  then have "(Address (Contract s), Bytes32 key) \<in> warm_slots (StateDB s')"
    using later_warm[OF p later] by auto
  then have warm: "snd (SlotInAccessList (StateDB s') (Address (Contract s')) (Bytes32 key))"
    by (simp add: warm_slots_def same)
  have second: "gasSLoadEIP2929 s' stack' memorySize'
                  = (Return (WarmStorageReadCostEIP2929, None), s')"
    using same warm by (simp add: gasSLoadEIP2929_def)
  show ?thesis
    using first second is_gas_function_keeps_warm[OF p] enable2929_SLOAD[OF table]
    by blast
qed

text \<open>Witness: slot 7 of the contract at address 1, read, then an account check of address 9,
  then read again; the activator on the example table.\<close>

theorem sload_cold_then_warm_witness:
  "gasSLoadEIP2929 example_ctx [7] 0 =
      (Return (ColdSloadCostEIP2929, None), onStateDB (AddSlotToAccessList 1 7) example_ctx)
   \<and> fst (gasSLoadEIP2929
             (snd (gasEip2929AccountCheck (snd (gasSLoadEIP2929 example_ctx [7] 0)) [9] 0))
             [7] 0)
       = Return (WarmStorageReadCostEIP2929, None)
   \<and> keeps_warm (makeCallVariantGasCallEIP2929 charges_seven)
   \<and> (\<exists>jt' d. enable2929 example_table = Return jt' \<and> descriptor jt' SLOAD = Some d
          \<and> constantGas d = 0 \<and> dynamicGas d = Some gasSLoadEIP2929_ref)"
proof -
  define prior where "prior = (\<lambda>g. g = charges_seven)"
  define s1 where "s1 = snd (gasSLoadEIP2929 example_ctx [7] 0)"
  define s' where "s' = snd (gasEip2929AccountCheck s1 [9] 0)"
  have h1: "\<forall>old. prior old \<longrightarrow> keeps_warm old"
    by (simp add: prior_def keeps_warm_def charges_seven_def)
  have h2: "Peek [7] = Some 7"
    by (simp add: stack_defs)
  have h3: "\<not> snd (SlotInAccessList (StateDB example_ctx) (Address (Contract example_ctx))
                   (Bytes32 7))"
    by (simp add: example_defs statedb_defs stack_defs)
  have h4: "later prior (StateDB (snd (gasSLoadEIP2929 example_ctx [7] 0))) (StateDB s')"
    unfolding s'_def s1_def
    by (rule later.after[OF later.now _ refl]) (simp add: is_gas_function_def)
  have h5: "Address (Contract s') = Address (Contract example_ctx)"
    by (simp add: s'_def s1_def gasEip2929AccountCheck_def gasSLoadEIP2929_def example_defs
        statedb_defs stack_defs Let_def)
  obtain jt' where h6: "enable2929 example_table = Return jt'"
    by (simp add: enable2929_def example_table_def)
  have h7: "\<forall>opc. opc \<noteq> SLOAD \<longrightarrow> entries example_table opc \<noteq> entries example_table SLOAD"
    by (simp add: example_table_def word_unat_eq_iff)
  have addr: "Address (Contract example_ctx) = 1"
    by (simp add: example_defs)
  have call: "is_gas_function prior (makeCallVariantGasCallEIP2929 charges_seven)"
    by (auto simp: is_gas_function_def prior_def)
  show ?thesis
    using sload_cold_then_warm[OF h1 h2 h3 h4 h5 h2 h6 h7, of 0] call h6
    by (auto simp: s'_def s1_def addr Bytes32_def)
qed

subsection \<open>MCOPY gas at concrete inputs\<close>

lemmas memory_defs = memoryGasCost_def toWordSize_def Memory_Len_def SafeAdd_def SafeMul_def

text \<open>
  C4 fails on the code. The gas function reads each operand with \<^verbatim>\<open>Uint64()\<close>, which keeps the
  low 64 bits of the 256-bit item and tests nothing: for the length \<open>2 ^ 64 + 32\<close> at the
  offsets 0 of an empty memory it returns what it returns for the length 32, the charge 99
  with no error, although three times that length does not fit 64 bits. And the memory
  growth cost it adds can itself be a wrapped difference: the gas function for a zero-length
  copy to offset 10000 records the fee 1130 of 313 words, the execute function returns on the
  zero length without growing the memory, and the gas function for a following copy of 32
  bytes at offset 0 returns \<open>3 - 1130 + 96\<close> modulo \<open>2 ^ 64\<close> with no error, the final guarded
  addition finding nothing to refuse.
\<close>

theorem gasMCopy_wraps:
  "gasMCopy example_ctx [0, 0, 2 ^ 64 + 32] 0 = gasMCopy example_ctx [0, 0, 32] 0
   \<and> fst (gasMCopy example_ctx [0, 0, 2 ^ 64 + 32] 0) = Return (99, None)
   \<and> gasMCopy example_ctx [10000, 0, 0] 0
       = (Return (1130, None), example_ctx\<lparr>Mem := \<lparr>store = [], lastGasCost = 1130\<rparr>\<rparr>)
   \<and> opMCopy \<lparr>Stack = [10000, 0, 0], Memory = \<lparr>store = [], lastGasCost = 1130\<rparr>\<rparr>
       = (Return (None, None), \<lparr>Stack = [], Memory = \<lparr>store = [], lastGasCost = 1130\<rparr>\<rparr>)
   \<and> fst (gasMCopy (example_ctx\<lparr>Mem := \<lparr>store = [], lastGasCost = 1130\<rparr>\<rparr>) [0, 0, 32] 0)
       = Return (18446744073709550585, None)"
  by (simp add: gasMCopy_def opMCopy_def memory_defs example_defs constant_defs stack_defs
      copyGasPerByte_def Let_def)

text \<open>
  C2 fails on the gas side. The execute function returns at once on a zero length, whatever
  the offsets, and leaves the memory alone. The gas function has no such case: for a
  zero-length copy to offset 32 of an empty memory it charges the 3 gas of growing the memory
  to one word, and for the offset \<open>2 ^ 40\<close> it fails with the overflow error.
\<close>

theorem mcopy_zero_length:
  "opMCopy \<lparr>Stack = [0, 2 ^ 40, 0], Memory = Mem example_ctx\<rparr>
     = (Return (None, None), \<lparr>Stack = [], Memory = Mem example_ctx\<rparr>)
   \<and> fst (gasMCopy example_ctx [32, 0, 0] 0) = Return (3, None)
   \<and> fst (gasMCopy example_ctx [2 ^ 40, 0, 0] 0) = Return (0, Some ErrGasUintOverflow)"
  by (simp add: opMCopy_def gasMCopy_def memory_defs example_defs constant_defs stack_defs
      Let_def)

subsection \<open>MCOPY execution\<close>









lemma Pop_snoc: "Pop (xs @ [x]) = Some (x, xs)"
  by (simp add: Pop_def)











subsection \<open>Feature names\<close>

lemma digit_range:
  "((48::nat) \<le> of_char c \<and> of_char c \<le> (57::nat)) \<longleftrightarrow> c \<in> set ''0123456789''"
  by (cases c) (auto simp: of_char_Char split: if_splits)

lemma digit_of_eq:
  "digit_of c = (if c \<in> set ''0123456789'' then Some (of_char c - 48) else None)"
  unfolding digit_of_def digit_range by simp

lemma parse_digits_eq:
  "parse_digits n ds =
     (if list_all (\<lambda>c. c \<in> set ''0123456789'') ds
      then Some (foldl (\<lambda>n d. n * 10 + d) n (map (\<lambda>c. of_char c - 48) ds))
      else None)"
  by (induction ds arbitrary: n) (simp_all add: digit_of_eq)

lemma parse_digits_0:
  "ds \<noteq> [] \<Longrightarrow>
   parse_digits 0 ds = (if is_digits ds then Some (digits_value ds) else None)"
  by (simp add: parse_digits_eq is_digits_def digits_value_def decimal_value_def)

lemma is_digits_hd:
  assumes "is_digits ds"
  shows "hd ds \<noteq> CHR ''+''" "hd ds \<noteq> CHR ''-''" "CHR ''_'' \<notin> set ds" "ds \<noteq> []"
proof -
  show ne: "ds \<noteq> []"
    using assms by (simp add: is_digits_def)
  have all: "c \<in> set ds \<Longrightarrow> c \<in> set ''0123456789''" for c
    using assms by (simp add: is_digits_def list_all_iff)
  have "hd ds \<in> set ''0123456789''"
    using all[of "hd ds"] ne by simp
  then show "hd ds \<noteq> CHR ''+''" "hd ds \<noteq> CHR ''-''"
    by auto
  show "CHR ''_'' \<notin> set ds"
    using all[of "CHR ''_''"] by auto
qed

lemma Atoi_unfold:
  assumes "num \<noteq> []"
  shows "strconv_Atoi num =
     (let neg = (hd num = CHR ''-'');
          ds = (if hd num = CHR ''+'' \<or> hd num = CHR ''-'' then tl num else num)
      in if ds = [] then Inl ErrSyntax
         else (case parse_digits 0 ds of
                 None \<Rightarrow> Inl ErrSyntax
               | Some un \<Rightarrow>
                   if \<not> neg \<and> 2 ^ 63 \<le> un then Inl ErrRange
                   else if neg \<and> 2 ^ 63 < un then Inl ErrRange
                   else Inr (if neg then - int un else int un)))"
  using assms by (cases num) (auto simp: strconv_Atoi_def Let_def)

lemma Atoi_ok_iff: "(\<exists>v. strconv_Atoi num = Inr v) \<longleftrightarrow> is_int_text num"
proof
  assume "\<exists>v. strconv_Atoi num = Inr v"
  then obtain v where v: "strconv_Atoi num = Inr v" ..
  then have num: "num \<noteq> []"
    by (auto simp: strconv_Atoi_def)
  define ds where "ds = (if hd num = CHR ''+'' \<or> hd num = CHR ''-'' then tl num else num)"
  have ne: "ds \<noteq> []"
    using v unfolding Atoi_unfold[OF num] Let_def ds_def[symmetric]
    by (auto split: if_splits)
  have dig: "is_digits ds"
    using v ne unfolding Atoi_unfold[OF num] Let_def ds_def[symmetric]
    by (auto simp: parse_digits_0 split: if_splits)
  have range: "if hd num = CHR ''-'' then digits_value ds \<le> 2 ^ 63
               else digits_value ds < 2 ^ 63"
    using v ne dig unfolding Atoi_unfold[OF num] Let_def ds_def[symmetric]
    by (auto simp: parse_digits_0 split: if_splits)
  have shape: "num = ds \<or> num = CHR ''+'' # ds \<and> hd num \<noteq> CHR ''-''
               \<or> num = CHR ''-'' # ds \<and> hd num = CHR ''-''"
    using num by (cases num) (auto simp: ds_def)
  have "hd num \<noteq> CHR ''-''" if "num = ds"
    using that is_digits_hd(2)[OF dig] by simp
  then show "is_int_text num"
    unfolding is_int_text_def
    using dig range shape by (intro exI[of _ ds]) (auto split: if_splits)
next
  assume "is_int_text num"
  then obtain ds where dig: "is_digits ds"
    and form: "(num = ds \<or> num = CHR ''+'' # ds) \<and> digits_value ds < 2 ^ 63
               \<or> num = CHR ''-'' # ds \<and> digits_value ds \<le> 2 ^ 63"
    unfolding is_int_text_def by blast
  note hd = is_digits_hd[OF dig]
  from form consider "num = ds" "digits_value ds < 2 ^ 63"
    | "num = CHR ''+'' # ds" "digits_value ds < 2 ^ 63"
    | "num = CHR ''-'' # ds" "digits_value ds \<le> 2 ^ 63"
    by blast
  then show "\<exists>v. strconv_Atoi num = Inr v"
  proof cases
    case 1
    have "num \<noteq> []" using 1 hd by simp
    then show ?thesis
      unfolding Atoi_unfold[OF \<open>num \<noteq> []\<close>] using 1 hd dig
      by (simp add: parse_digits_0 Let_def)
  next
    case 2
    have "num \<noteq> []" using 2 by simp
    then show ?thesis
      unfolding Atoi_unfold[OF \<open>num \<noteq> []\<close>] using 2 hd dig
      by (simp add: parse_digits_0 Let_def)
  next
    case 3
    have "num \<noteq> []" using 3 by simp
    then show ?thesis
      unfolding Atoi_unfold[OF \<open>num \<noteq> []\<close>] using 3 hd dig
      by (simp add: parse_digits_0 Let_def)
  qed
qed

lemma Split_not_Nil: "strings_Split s c \<noteq> []"
  by (induction s) (auto split: list.splits)

lemma Split_without: "c \<notin> set a \<Longrightarrow> strings_Split a c = [a]"
  by (induction a) auto

lemma Split_at_first: "c \<notin> set a \<Longrightarrow> strings_Split (a @ c # b) c = a # strings_Split b c"
  by (induction a) auto

lemma length_Split: "length (strings_Split s c) = Suc (length (filter (\<lambda>x. x = c) s))"
  by (induction s) (auto split: list.splits simp: Split_not_Nil)

lemma Split_two:
  assumes "length (strings_Split s c) = 2"
  shows "\<exists>a b. s = a @ c # b \<and> c \<notin> set a \<and> c \<notin> set b \<and> strings_Split s c = [a, b]"
proof -
  have one: "length (filter (\<lambda>x. x = c) s) = 1"
    using assms by (simp add: length_Split)
  then have "filter (\<lambda>x. x = c) s \<noteq> []"
    by auto
  then have "c \<in> set s"
    by (auto simp: filter_empty_conv)
  then obtain a b where s: "s = a @ c # b" and a: "c \<notin> set a"
    using split_list_first[of c s] by blast
  have "filter (\<lambda>x. x = c) a = []"
    using a by (auto simp: filter_empty_conv)
  then have "length (filter (\<lambda>x. x = c) b) = 0"
    using one by (simp add: s)
  then have b: "c \<notin> set b"
    by (auto simp: filter_empty_conv)
  show ?thesis
    using s a b by (auto simp: Split_at_first Split_without)
qed

lemma ValidateEIPName_iff: "ValidateEIPName eipName = None \<longleftrightarrow> conforms eipName"
proof
  assume ok: "ValidateEIPName eipName = None"
  then have two: "length (strings_Split eipName CHR ''_'') = 2"
    by (auto simp: ValidateEIPName_def Let_def split: if_splits)
  then obtain a b where s: "eipName = a @ CHR ''_'' # b" and a: "CHR ''_'' \<notin> set a"
    and split: "strings_Split eipName CHR ''_'' = [a, b]"
    using Split_two by blast
  have "\<exists>v. strconv_Atoi b = Inr v"
    using ok by (cases "strconv_Atoi b") (simp_all add: ValidateEIPName_def split)
  then have "is_int_text b"
    by (simp add: Atoi_ok_iff)
  then show "conforms eipName"
    unfolding conforms_def using s a by auto
next
  assume "conforms eipName"
  then obtain a b where s: "eipName = a @ ''_'' @ b" and a: "CHR ''_'' \<notin> set a"
    and b: "is_int_text b"
    unfolding conforms_def by blast
  from b obtain v where v: "strconv_Atoi b = Inr v"
    using Atoi_ok_iff by blast
  from b have "CHR ''_'' \<notin> set b"
    unfolding is_int_text_def using is_digits_hd(3) by auto
  then have "strings_Split eipName CHR ''_'' = [a, b]"
    using a by (simp add: s Split_at_first Split_without)
  then show "ValidateEIPName eipName = None"
    by (simp add: ValidateEIPName_def v)
qed

text \<open>
  C7. For a feature name that has no activator, \<^verbatim>\<open>EnableEIP\<close> returns the error ``undefined
  eip'' followed by the name and leaves the jump table as it was. \<^verbatim>\<open>ValidateEIPName\<close> accepts
  exactly the names made of a chain name without underscore, one underscore, and an integer
  in decimal notation that fits Go's \<^verbatim>\<open>int\<close>; it does not consult the activators;
  ``ethereum5656'' is rejected for its structure.
\<close>

theorem unknown_eip_and_name_validation:
  "(activators eipName = None \<longrightarrow>
      EnableEIP eipName jt = Return (Some (errors_New (''undefined eip '' @ eipName)), jt))
   \<and> (ValidateEIPName name = None \<longleftrightarrow> conforms name)
   \<and> ValidateEIPName ''ethereum5656'' = Some structure_error"
  by (simp add: EnableEIP_def ValidateEIPName_iff) (simp add: ValidateEIPName_def)

text \<open>Witness: ``ethereum\_9999'' is well formed and not registered; ``ethereum\_5656'' is
  well formed and registered.\<close>

theorem unknown_eip_and_name_validation_witness:
  "activators ''ethereum_9999'' = None
   \<and> EnableEIP ''ethereum_9999'' example_table
       = Return (Some (errors_New ''undefined eip ethereum_9999''), example_table)
   \<and> ValidateEIPName ''ethereum_9999'' = None \<and> conforms ''ethereum_9999''
   \<and> ValidateEIPName ''ethereum_5656'' = None \<and> ExistsEipActivator ''ethereum_5656''"
proof -
  have h: "activators ''ethereum_9999'' = None"
    by (simp add: activators_def)
  have v: "ValidateEIPName ''ethereum_9999'' = None" "ValidateEIPName ''ethereum_5656'' = None"
    by (simp_all add: ValidateEIPName_def strconv_Atoi_def digit_of_def Let_def)
  have e: "ExistsEipActivator ''ethereum_5656''"
    by (simp add: ExistsEipActivator_def activators_def)
  show ?thesis
    using unknown_eip_and_name_validation[of "''ethereum_9999''" example_table
        "''ethereum_9999''"] h v e
    by simp
qed

end
